theory Spec2Isabelle
  imports Complex_Main "HOL-Library.Word" "HOL-Library.List_Lexorder"
begin

text \<open>
  A model of \<open>src/index.ts\<close>, a client that fetches paginated patient records from an
  unreliable API, scores each patient's blood pressure, temperature and age, and submits
  three lists of patient identifiers: the field normalizer and the risk scorer, the
  retrying transport \<open>fetchWithRetry\<close>, the pagination driver \<open>fetchAllPatients\<close>, and the
  loop of \<open>main\<close> that builds and submits the lists.
\<close>

section \<open>JavaScript values\<close>

text \<open>
  The program is TypeScript run on Node: at run time every field of a fetched record is
  an arbitrary JSON value, whatever the declared type says. The model therefore works
  on run-time values.

  \<^item> A string is its list of UTF-16 code units, which is what \<open>trim\<close>, \<open>split\<close>,
    \<open>Number\<close> and the default \<open>sort\<close> comparison look at.
  \<^item> A number is \<open>NaN\<close>, one of the two infinities, or a finite value. A finite value is
    the rational it denotes: the rounding of decimal text to the nearest double is not
    modelled, only the overflow to an infinity; \<open>+0\<close> and \<open>-0\<close> are one value. The
    decimal literals of the program (\<open>99.5\<close>, \<open>99.6\<close>, \<open>100.9\<close>) stand for their decimal
    values.
  \<^item> An object is the list of its own properties; the first binding of a key is the one
    that is read.
\<close>

type_synonym jsstring = "16 word list"

datatype jsnum = Fin rat | PosInf | NegInf | NaN

datatype jsval =
    JUndefined
  | JNull
  | JBool bool
  | JNum jsnum
  | JStr jsstring
  | JArr "jsval list"
  | JObj "(jsstring \<times> jsval) list"

definition utf16 :: "string \<Rightarrow> jsstring" where
  "utf16 s = map of_char s"

text \<open>Property read \<open>o.k\<close> on an object given by its property list; an absent property
  reads as \<open>undefined\<close>.\<close>

definition field :: "(jsstring \<times> jsval) list \<Rightarrow> string \<Rightarrow> jsval" where
  "field props k = (case map_of props (utf16 k) of None \<Rightarrow> JUndefined | Some v \<Rightarrow> v)"

text \<open>\<open>!v\<close> is \<open>\<not> truthy v\<close>.\<close>

fun truthy :: "jsval \<Rightarrow> bool" where
  "truthy JUndefined = False"
| "truthy JNull = False"
| "truthy (JBool b) = b"
| "truthy (JNum n) = (n \<noteq> NaN \<and> n \<noteq> Fin 0)"
| "truthy (JStr s) = (s \<noteq> [])"
| "truthy (JArr xs) = True"
| "truthy (JObj kvs) = True"

subsection \<open>String primitives\<close>

text \<open>The code units removed by \<open>String.prototype.trim\<close>: WhiteSpace and LineTerminator.\<close>

definition isWhiteSpace :: "16 word \<Rightarrow> bool" where
  "isWhiteSpace c \<longleftrightarrow>
     c \<in> set [0x09, 0x0A, 0x0B, 0x0C, 0x0D, 0x20, 0xA0, 0x1680,
              0x2028, 0x2029, 0x202F, 0x205F, 0x3000, 0xFEFF]
     \<or> (0x2000 \<le> c \<and> c \<le> 0x200A)"

definition trim :: "jsstring \<Rightarrow> jsstring" where
  "trim s = rev (dropWhile isWhiteSpace (rev (dropWhile isWhiteSpace s)))"

text \<open>\<open>s.split(sep)\<close> for a one-unit separator: \<open>"".split("/")\<close> is \<open>[""]\<close>.\<close>

fun splitOn :: "16 word \<Rightarrow> jsstring \<Rightarrow> jsstring list" where
  "splitOn sep [] = [[]]"
| "splitOn sep (c # cs) =
     (if c = sep then [] # splitOn sep cs
      else (case splitOn sep cs of
              [] \<Rightarrow> [[c]]
            | p # ps \<Rightarrow> (c # p) # ps))"

subsection \<open>\<open>Number(string)\<close>\<close>

text \<open>
  The language's StringToNumber: optional white space around a StrNumericLiteral, which
  is a signed decimal literal (digits, fraction, exponent, or \<open>Infinity\<close>) or an unsigned
  binary, octal or hexadecimal integer; the empty string is \<open>0\<close>; anything else is
  \<open>NaN\<close>.
\<close>

definition isDigit :: "16 word \<Rightarrow> bool" where
  "isDigit c \<longleftrightarrow> 0x30 \<le> c \<and> c \<le> 0x39"

definition digitValue :: "16 word \<Rightarrow> nat option" where
  "digitValue c =
     (if 0x30 \<le> c \<and> c \<le> 0x39 then Some (unat c - 0x30)
      else if 0x61 \<le> c \<and> c \<le> 0x66 then Some (unat c - 0x61 + 10)
      else if 0x41 \<le> c \<and> c \<le> 0x46 then Some (unat c - 0x41 + 10)
      else None)"

definition digitsIn :: "nat \<Rightarrow> jsstring \<Rightarrow> nat option" where
  "digitsIn base s =
     (if s \<noteq> [] \<and> list_all (\<lambda>c. case digitValue c of None \<Rightarrow> False | Some d \<Rightarrow> d < base) s
      then Some (foldl (\<lambda>a c. base * a + the (digitValue c)) 0 s)
      else None)"

definition signedInteger :: "jsstring \<Rightarrow> int option" where
  "signedInteger s =
     (case s of
        [] \<Rightarrow> None
      | c # t \<Rightarrow>
          if c = 0x2B then map_option int (digitsIn 10 t)
          else if c = 0x2D then map_option (\<lambda>n. - int n) (digitsIn 10 t)
          else map_option int (digitsIn 10 s))"

definition exponentPart :: "jsstring \<Rightarrow> int option" where
  "exponentPart s =
     (case s of
        [] \<Rightarrow> Some 0
      | c # t \<Rightarrow> if c = 0x65 \<or> c = 0x45 then signedInteger t else None)"

definition pow10 :: "int \<Rightarrow> rat" where
  "pow10 e = (if 0 \<le> e then 10 ^ nat e else 1 / 10 ^ nat (- e))"

definition digitsValue :: "jsstring \<Rightarrow> rat" where
  "digitsValue s = of_nat (foldl (\<lambda>a c. 10 * a + (unat c - 0x30)) 0 s)"

definition unsignedDecimal :: "jsstring \<Rightarrow> rat option" where
  "unsignedDecimal s =
     (let ip = takeWhile isDigit s; r1 = dropWhile isDigit s in
      case r1 of
        [] \<Rightarrow> if ip = [] then None else Some (digitsValue ip)
      | c # t \<Rightarrow>
          if c = 0x2E then
            (let fp = takeWhile isDigit t; r2 = dropWhile isDigit t in
             if ip = [] \<and> fp = [] then None
             else map_option (\<lambda>e. digitsValue (ip @ fp) * pow10 (e - int (length fp)))
                    (exponentPart r2))
          else if ip = [] then None
          else map_option (\<lambda>e. digitsValue ip * pow10 e) (exponentPart r1))"

text \<open>The mathematical value becomes a Number: at and beyond \<open>2^1024 - 2^970\<close> it rounds
  to an infinity.\<close>

definition roundDouble :: "rat \<Rightarrow> jsnum" where
  "roundDouble q =
     (if 2 ^ 1024 - 2 ^ 970 \<le> q then PosInf
      else if q \<le> - (2 ^ 1024 - 2 ^ 970) then NegInf
      else Fin q)"

definition unsignedLiteral :: "jsstring \<Rightarrow> jsnum option" where
  "unsignedLiteral s =
     (if s = utf16 ''Infinity'' then Some PosInf
      else map_option roundDouble (unsignedDecimal s))"

fun negate :: "jsnum \<Rightarrow> jsnum" where
  "negate (Fin q) = Fin (- q)"
| "negate PosInf = NegInf"
| "negate NegInf = PosInf"
| "negate NaN = NaN"

definition strDecimalLiteral :: "jsstring \<Rightarrow> jsnum option" where
  "strDecimalLiteral s =
     (case s of
        [] \<Rightarrow> None
      | c # t \<Rightarrow>
          if c = 0x2B then unsignedLiteral t
          else if c = 0x2D then map_option negate (unsignedLiteral t)
          else unsignedLiteral s)"

definition nonDecimalIntegerLiteral :: "jsstring \<Rightarrow> jsnum option" where
  "nonDecimalIntegerLiteral s =
     (case s of
        z # p # t \<Rightarrow>
          if z \<noteq> 0x30 then None
          else if p = 0x78 \<or> p = 0x58 then map_option (\<lambda>n. roundDouble (of_nat n)) (digitsIn 16 t)
          else if p = 0x6F \<or> p = 0x4F then map_option (\<lambda>n. roundDouble (of_nat n)) (digitsIn 8 t)
          else if p = 0x62 \<or> p = 0x42 then map_option (\<lambda>n. roundDouble (of_nat n)) (digitsIn 2 t)
          else None
      | _ \<Rightarrow> None)"

definition StringToNumber :: "jsstring \<Rightarrow> jsnum" where
  "StringToNumber s =
     (let t = trim s in
      if t = [] then Fin 0
      else (case nonDecimalIntegerLiteral t of
              Some n \<Rightarrow> n
            | None \<Rightarrow> (case strDecimalLiteral t of Some n \<Rightarrow> n | None \<Rightarrow> NaN)))"

section \<open>Field normalizer\<close>

definition isNonEmptyString :: "jsval \<Rightarrow> bool" where
  "isNonEmptyString v = (case v of JStr s \<Rightarrow> 0 < length (trim s) | _ \<Rightarrow> False)"

text \<open>\<open>null\<close> of the source is \<open>None\<close>.\<close>

definition numberIsFinite :: "jsnum \<Rightarrow> rat option" where
  "numberIsFinite n = (case n of Fin q \<Rightarrow> Some q | _ \<Rightarrow> None)"

definition toFiniteNumber :: "jsval \<Rightarrow> rat option" where
  "toFiniteNumber v =
     (case v of
        JNum n \<Rightarrow> numberIsFinite n
      | JStr s \<Rightarrow> numberIsFinite (StringToNumber (trim s))
      | _ \<Rightarrow> None)"

definition parseBloodPressure :: "jsval \<Rightarrow> (rat \<times> rat) option" where
  "parseBloodPressure bp =
     (if \<not> isNonEmptyString bp then None
      else (case bp of
              JStr s \<Rightarrow>
                (case splitOn 0x2F s of
                   [p0, p1] \<Rightarrow>
                     (let sysStr = trim p0; diaStr = trim p1 in
                      if sysStr = [] \<or> diaStr = [] then None
                      else (case (toFiniteNumber (JStr sysStr), toFiniteNumber (JStr diaStr)) of
                              (Some sys, Some dia) \<Rightarrow> Some (sys, dia)
                            | _ \<Rightarrow> None))
                 | _ \<Rightarrow> None)
            | _ \<Rightarrow> None))"

section \<open>Risk scorer\<close>

definition sysPoints :: "rat \<Rightarrow> nat" where
  "sysPoints sys =
     (if sys < 120 then 1
      else if 120 \<le> sys \<and> sys \<le> 129 then 2
      else if 130 \<le> sys \<and> sys \<le> 139 then 3
      else 4)"

definition diaPoints :: "rat \<Rightarrow> nat" where
  "diaPoints dia = (if dia < 80 then 1 else if 80 \<le> dia \<and> dia \<le> 89 then 3 else 4)"

definition bloodPressureScore :: "jsval \<Rightarrow> nat" where
  "bloodPressureScore bp =
     (case parseBloodPressure bp of
        None \<Rightarrow> 0
      | Some (sys, dia) \<Rightarrow> max (sysPoints sys) (diaPoints dia))"

definition temperatureScore :: "jsval \<Rightarrow> nat" where
  "temperatureScore temp =
     (case toFiniteNumber temp of
        None \<Rightarrow> 0
      | Some t \<Rightarrow>
          if t \<le> 995 / 10 then 0
          else if 996 / 10 \<le> t \<and> t \<le> 1009 / 10 then 1
          else if 101 \<le> t then 2
          else 0)"

definition ageScore :: "jsval \<Rightarrow> nat" where
  "ageScore age =
     (case toFiniteNumber age of
        None \<Rightarrow> 0
      | Some a \<Rightarrow> if 65 < a then 2 else 1)"

type_synonym patient = "(jsstring \<times> jsval) list"

definition hasDataQualityIssue :: "patient \<Rightarrow> bool" where
  "hasDataQualityIssue p =
     (let bpInvalid = (parseBloodPressure (field p ''blood_pressure'') = None);
          tempInvalid = (toFiniteNumber (field p ''temperature'') = None);
          ageInvalid = (toFiniteNumber (field p ''age'') = None)
      in bpInvalid \<or> tempInvalid \<or> ageInvalid)"

definition isFeverPatient :: "patient \<Rightarrow> bool" where
  "isFeverPatient p =
     (case toFiniteNumber (field p ''temperature'') of
        None \<Rightarrow> False
      | Some t \<Rightarrow> 996 / 10 \<le> t)"

definition totalRiskScore :: "patient \<Rightarrow> nat" where
  "totalRiskScore p =
     bloodPressureScore (field p ''blood_pressure'')
     + temperatureScore (field p ''temperature'')
     + ageScore (field p ''age'')"

section \<open>Retrying transport\<close>

text \<open>
  The remote API and the random number generator are the environment: \<open>server k req\<close>
  is what the \<open>k\<close>-th call of \<open>fetch\<close> of the run meets when it sends \<open>req\<close>, and
  \<open>mathRandom k\<close> is the \<open>k\<close>-th value of \<open>Math.random()\<close>. The state of a run counts
  the calls made so far and records every request sent and every delay waited, in order.
  A request stands for the URL and the options of the call.
\<close>

datatype request =
    GetPatients nat nat
  | SubmitAssessment "jsval list" "jsval list" "jsval list"

record response =
  status :: nat
  bodyText :: "jsstring option"
  bodyJson :: "jsval option"

datatype outcome = Rejected | Responded response

datatype error =
    HttpAfterRetries nat jsstring
  | HttpError nat jsstring
  | NetworkError
  | JsonError
  | Unreachable
  | TypeError

datatype event = Fetched request | Slept rat

record env =
  server :: "nat \<Rightarrow> request \<Rightarrow> outcome"
  mathRandom :: "nat \<Rightarrow> rat"

record world =
  calls :: nat
  draws :: nat
  trace :: "event list"

record opts =
  retries :: "int option"
  baseDelayMs :: "rat option"

datatype 'a completion = Returned 'a | Continued | Thrown error

definition jsFetch :: "env \<Rightarrow> request \<Rightarrow> world \<Rightarrow> outcome \<times> world" where
  "jsFetch e req w =
     (server e (calls w) req, w\<lparr>calls := calls w + 1, trace := trace w @ [Fetched req]\<rparr>)"

definition sleep :: "rat \<Rightarrow> world \<Rightarrow> world" where
  "sleep ms w = w\<lparr>trace := trace w @ [Slept ms]\<rparr>"

text \<open>\<open>res.ok\<close>, and \<open>await res.text().catch(() => "")\<close>.\<close>

definition ok :: "response \<Rightarrow> bool" where
  "ok res \<longleftrightarrow> 200 \<le> status res \<and> status res \<le> 299"

definition textOrEmpty :: "response \<Rightarrow> jsstring" where
  "textOrEmpty res = (case bodyText res of None \<Rightarrow> [] | Some b \<Rightarrow> b)"

text \<open>The three lines that both retry paths share: draw the jitter, compute the wait,
  sleep.\<close>

definition jitterOf :: "rat \<Rightarrow> int" where
  "jitterOf r = \<lfloor>r * 150\<rfloor>"

definition backoff :: "env \<Rightarrow> rat \<Rightarrow> nat \<Rightarrow> world \<Rightarrow> world" where
  "backoff e base attempt w =
     (let jitter = jitterOf (mathRandom e (draws w));
          wait = base * 2 ^ attempt + of_int jitter
      in sleep wait (w\<lparr>draws := draws w + 1\<rparr>))"

text \<open>The body of the \<open>try\<close> block of one iteration. Both \<open>throw\<close> statements are
  inside the block, so what they throw reaches the \<open>catch\<close> clause of the same
  iteration, as a rejected \<open>fetch\<close> or \<open>res.json()\<close> does.\<close>

definition tryBlock :: "env \<Rightarrow> request \<Rightarrow> int \<Rightarrow> rat \<Rightarrow> nat \<Rightarrow> world \<Rightarrow> jsval completion \<times> world" where
  "tryBlock e req r base attempt w =
     (case jsFetch e req w of
        (Rejected, w1) \<Rightarrow> (Thrown NetworkError, w1)
      | (Responded res, w1) \<Rightarrow>
          if status res \<in> set [429, 500, 503] then
            (if int attempt = r
             then (Thrown (HttpAfterRetries (status res) (textOrEmpty res)), w1)
             else (Continued, backoff e base attempt w1))
          else if \<not> ok res then (Thrown (HttpError (status res) (textOrEmpty res)), w1)
          else (case bodyJson res of
                  None \<Rightarrow> (Thrown JsonError, w1)
                | Some v \<Rightarrow> (Returned v, w1)))"

function retryLoop :: "env \<Rightarrow> request \<Rightarrow> int \<Rightarrow> rat \<Rightarrow> nat \<Rightarrow> world \<Rightarrow> (error + jsval) \<times> world" where
  "retryLoop e req r base attempt w =
     (if \<not> int attempt \<le> r then (Inl Unreachable, w)
      else (case tryBlock e req r base attempt w of
              (Returned v, w1) \<Rightarrow> (Inr v, w1)
            | (Continued, w1) \<Rightarrow> retryLoop e req r base (attempt + 1) w1
            | (Thrown err, w1) \<Rightarrow>
                if int attempt = r then (Inl err, w1)
                else retryLoop e req r base (attempt + 1) (backoff e base attempt w1)))"
  by pat_completeness auto
termination
  by (relation "measure (\<lambda>(e, req, r, base, attempt, w). nat (r + 1 - int attempt))") auto

declare retryLoop.simps [simp del]

definition fetchWithRetry :: "env \<Rightarrow> request \<Rightarrow> opts \<Rightarrow> world \<Rightarrow> (error + jsval) \<times> world" where
  "fetchWithRetry e req os w =
     (let r = (case retries os of None \<Rightarrow> 6 | Some n \<Rightarrow> n);
          base = (case baseDelayMs os of None \<Rightarrow> 250 | Some b \<Rightarrow> b)
      in retryLoop e req r base 0 w)"

section \<open>Pagination driver\<close>

text \<open>\<open>Array.isArray(resp.data) ? resp.data : []\<close>. Reading a property of \<open>null\<close>
  throws; every other JSON value that is not an object has no \<open>data\<close>.\<close>

definition extractData :: "jsval \<Rightarrow> error + jsval list" where
  "extractData resp =
     (case resp of
        JNull \<Rightarrow> Inl TypeError
      | JUndefined \<Rightarrow> Inl TypeError
      | JObj props \<Rightarrow> (case field props ''data'' of JArr xs \<Rightarrow> Inr xs | _ \<Rightarrow> Inr [])
      | _ \<Rightarrow> Inr [])"

text \<open>\<open>item && typeof item === "object" && "patient_id" in item\<close>: an array is an object
  without that key.\<close>

definition looksLikePatient :: "jsval \<Rightarrow> bool" where
  "looksLikePatient item =
     (case item of
        JObj props \<Rightarrow> map_of props (utf16 ''patient_id'') \<noteq> None
      | _ \<Rightarrow> False)"

text \<open>The cast \<open>item as Patient\<close> checks nothing: a patient is the object as it came.\<close>

fun asPatient :: "jsval \<Rightarrow> patient" where
  "asPatient (JObj props) = props"
| "asPatient v = []"

fun pushPatients :: "patient list \<Rightarrow> jsval list \<Rightarrow> patient list" where
  "pushPatients all [] = all"
| "pushPatients all (item # items) =
     (if looksLikePatient item then pushPatients (all @ [asPatient item]) items
      else pushPatients all items)"

partial_function (option) fetchPages ::
  "env \<Rightarrow> nat \<Rightarrow> patient list \<Rightarrow> world \<Rightarrow> ((error + patient list) \<times> world) option" where
  "fetchPages e page all w =
     (case fetchWithRetry e (GetPatients page 20) \<lparr>retries = None, baseDelayMs = None\<rparr> w of
        (Inl err, w1) \<Rightarrow> Some (Inl err, w1)
      | (Inr resp, w1) \<Rightarrow>
          (case extractData resp of
             Inl err \<Rightarrow> Some (Inl err, w1)
           | Inr data \<Rightarrow>
               if length data = 0 then Some (Inr all, w1)
               else fetchPages e (page + 1) (pushPatients all data) (sleep 120 w1)))"

definition fetchAllPatients :: "env \<Rightarrow> world \<Rightarrow> ((error + patient list) \<times> world) option" where
  "fetchAllPatients e w = fetchPages e 1 [] w"

section \<open>Submission orchestrator\<close>

text \<open>
  A \<open>Set\<close> is the list of its elements in insertion order. \<open>Set.prototype.add\<close> compares
  with SameValueZero: primitives by value, objects and arrays by reference. Every object
  that \<open>res.json()\<close> builds is a new one, and the loop visits each record once, so an
  identifier that is an object or an array is never the same as one already in the set.
\<close>

definition isPrimitive :: "jsval \<Rightarrow> bool" where
  "isPrimitive v = (case v of JArr xs \<Rightarrow> False | JObj kvs \<Rightarrow> False | _ \<Rightarrow> True)"

definition sameValueZero :: "jsval \<Rightarrow> jsval \<Rightarrow> bool" where
  "sameValueZero a b \<longleftrightarrow> isPrimitive a \<and> a = b"

definition setAdd :: "jsval \<Rightarrow> jsval list \<Rightarrow> jsval list" where
  "setAdd x s = (if list_ex (sameValueZero x) s then s else s @ [x])"

record alerts =
  highRisk :: "jsval list"
  fever :: "jsval list"
  dataIssues :: "jsval list"

definition noAlerts :: alerts where
  "noAlerts = \<lparr>highRisk = [], fever = [], dataIssues = []\<rparr>"

text \<open>One iteration of the loop of \<open>main\<close> over the fetched patients.\<close>

definition classify :: "alerts \<Rightarrow> patient \<Rightarrow> alerts" where
  "classify a p =
     (let id = field p ''patient_id'' in
      if \<not> truthy id then a
      else
        (let a1 = (if hasDataQualityIssue p then a\<lparr>dataIssues := setAdd id (dataIssues a)\<rparr> else a);
             a2 = (if isFeverPatient p then a1\<lparr>fever := setAdd id (fever a1)\<rparr> else a1);
             total = totalRiskScore p
         in if 4 \<le> total then a2\<lparr>highRisk := setAdd id (highRisk a2)\<rparr> else a2))"

definition classifyAll :: "patient list \<Rightarrow> alerts" where
  "classifyAll patients = foldl classify noAlerts patients"

text \<open>
  \<open>Array.from(set).sort()\<close> with no comparison function orders the elements by the code
  units of their string forms, and is stable. A string is its own string form. The
  string form of any other value is the language's \<open>ToString\<close>, which is not part of this
  program: it is the parameter \<open>conv\<close>, \<open>None\<close> where \<open>ToString\<close> throws (an object with a
  property named \<open>toString\<close>). With fewer than two elements nothing is compared; with
  more, every element is.
\<close>

definition jsToString :: "(jsval \<Rightarrow> jsstring option) \<Rightarrow> jsval \<Rightarrow> jsstring option" where
  "jsToString conv v = (case v of JStr s \<Rightarrow> Some s | _ \<Rightarrow> conv v)"

definition sortKey :: "(jsval \<Rightarrow> jsstring option) \<Rightarrow> jsval \<Rightarrow> jsstring" where
  "sortKey conv v = (case jsToString conv v of None \<Rightarrow> [] | Some s \<Rightarrow> s)"

definition jsSort :: "(jsval \<Rightarrow> jsstring option) \<Rightarrow> jsval list \<Rightarrow> error + jsval list" where
  "jsSort conv xs =
     (if length xs < 2 then Inr xs
      else if list_ex (\<lambda>v. jsToString conv v = None) xs then Inl TypeError
      else Inr (sort_key (sortKey conv) xs))"

record submissionBody =
  high_risk_patients :: "jsval list"
  fever_patients :: "jsval list"
  data_quality_issues :: "jsval list"

definition buildSubmission :: "(jsval \<Rightarrow> jsstring option) \<Rightarrow> alerts \<Rightarrow> error + submissionBody" where
  "buildSubmission conv a =
     (case jsSort conv (highRisk a) of
        Inl err \<Rightarrow> Inl err
      | Inr hr \<Rightarrow>
          (case jsSort conv (fever a) of
             Inl err \<Rightarrow> Inl err
           | Inr fv \<Rightarrow>
               (case jsSort conv (dataIssues a) of
                  Inl err \<Rightarrow> Inl err
                | Inr dq \<Rightarrow>
                    Inr \<lparr>high_risk_patients = hr, fever_patients = fv,
                         data_quality_issues = dq\<rparr>)))"

definition submitAssessment :: "env \<Rightarrow> submissionBody \<Rightarrow> world \<Rightarrow> (error + jsval) \<times> world" where
  "submitAssessment e body w =
     fetchWithRetry e
       (SubmitAssessment (high_risk_patients body) (fever_patients body) (data_quality_issues body))
       \<lparr>retries = Some 3, baseDelayMs = Some 400\<rparr> w"

text \<open>\<open>main\<close>, without its console output. \<open>None\<close>: the pagination never ends.\<close>

definition main :: "(jsval \<Rightarrow> jsstring option) \<Rightarrow> env \<Rightarrow> world \<Rightarrow> ((error + jsval) \<times> world) option" where
  "main conv e w =
     (case fetchAllPatients e w of
        None \<Rightarrow> None
      | Some (Inl err, w1) \<Rightarrow> Some (Inl err, w1)
      | Some (Inr patients, w1) \<Rightarrow>
          (case buildSubmission conv (classifyAll patients) of
             Inl err \<Rightarrow> Some (Inl err, w1)
           | Inr body \<Rightarrow> Some (submitAssessment e body w1)))"

section \<open>Vocabulary of the properties\<close>

text \<open>\<open>typeof v === "string"\<close>.\<close>

fun isString :: "jsval \<Rightarrow> bool" where
  "isString (JStr s) = True"
| "isString v = False"

text \<open>No two entries of a list are the same value, in the sense of the \<open>Set\<close>.\<close>

fun noSameValue :: "jsval list \<Rightarrow> bool" where
  "noSameValue [] = True"
| "noSameValue (x # xs) = (\<not> list_ex (sameValueZero x) xs \<and> noSameValue xs)"

text \<open>The blood-pressure categories in the words of the specification, each band
  reaching up to the next: below 120, 120 to 129, 130 to 139, 140 and above; below 80,
  80 to 89, 90 and above.\<close>

definition specSystolicCategory :: "rat \<Rightarrow> nat" where
  "specSystolicCategory s = (if s < 120 then 1 else if s < 130 then 2 else if s < 140 then 3 else 4)"

definition specDiastolicCategory :: "rat \<Rightarrow> nat" where
  "specDiastolicCategory d = (if d < 80 then 1 else if d < 90 then 3 else 4)"

text \<open>A failure that the transport treats as transient (a retryable status, a rejected
  \<open>fetch\<close>, a body that does not parse), the error that such a failure surfaces as on the
  last attempt, and the requests and waits of \<open>k\<close> failed attempts that begin with attempt
  \<open>a\<close> and random draw \<open>d\<close>.\<close>

fun transient :: "outcome \<Rightarrow> bool" where
  "transient Rejected = True"
| "transient (Responded res) =
     (status res \<in> set [429, 500, 503] \<or> (ok res \<and> bodyJson res = None))"

fun lastError :: "outcome \<Rightarrow> error" where
  "lastError Rejected = NetworkError"
| "lastError (Responded res) =
     (if status res \<in> set [429, 500, 503]
      then HttpAfterRetries (status res) (textOrEmpty res)
      else JsonError)"

definition retryEvents :: "env \<Rightarrow> request \<Rightarrow> rat \<Rightarrow> nat \<Rightarrow> nat \<Rightarrow> nat \<Rightarrow> event list" where
  "retryEvents e req base a d k =
     concat (map (\<lambda>i. [Fetched req,
                        Slept (base * 2 ^ (a + i) + of_int (jitterOf (mathRandom e (d + i))))])
               [0..<k])"

text \<open>The collection that the driver extracts from a page body.\<close>

definition pageData :: "jsval \<Rightarrow> jsval list" where
  "pageData resp = (case extractData resp of Inl err \<Rightarrow> [] | Inr d \<Rightarrow> d)"

section \<open>Example records and runs\<close>

definition inTheGap :: patient where
  "inTheGap =
     [(utf16 ''patient_id'', JStr (utf16 ''DEMO001'')),
      (utf16 ''temperature'', JStr (utf16 ''100.95''))]"

definition afebrile :: patient where
  "afebrile =
     [(utf16 ''patient_id'', JStr (utf16 ''DEMO002'')),
      (utf16 ''blood_pressure'', JNull),
      (utf16 ''temperature'', JNum (Fin (986 / 10))),
      (utf16 ''age'', JNum (Fin 50))]"

definition febrile :: patient where
  "febrile =
     [(utf16 ''patient_id'', JStr (utf16 ''DEMO003'')),
      (utf16 ''blood_pressure'', JNull),
      (utf16 ''temperature'', JStr (utf16 ''101.5'')),
      (utf16 ''age'', JNum (Fin 70))]"

definition totalThree :: patient where
  "totalThree =
     [(utf16 ''patient_id'', JStr (utf16 ''DEMO010'')),
      (utf16 ''blood_pressure'', JStr (utf16 ''118/70'')),
      (utf16 ''temperature'', JNum (Fin (998 / 10))),
      (utf16 ''age'', JNum (Fin 40))]"

definition totalFour :: patient where
  "totalFour =
     [(utf16 ''patient_id'', JStr (utf16 ''DEMO011'')),
      (utf16 ''blood_pressure'', JStr (utf16 ''125/70'')),
      (utf16 ''temperature'', JNum (Fin (998 / 10))),
      (utf16 ''age'', JNum (Fin 40))]"

definition numericId :: patient where
  "numericId =
     [(utf16 ''patient_id'', JNum (Fin 42)),
      (utf16 ''blood_pressure'', JNull)]"

definition emptyId :: patient where
  "emptyId =
     [(utf16 ''patient_id'', JStr []),
      (utf16 ''blood_pressure'', JNull)]"

definition blankVitals :: patient where
  "blankVitals =
     [(utf16 ''patient_id'', JStr (utf16 ''DEMO020'')),
      (utf16 ''blood_pressure'', JStr (utf16 ''110/70'')),
      (utf16 ''temperature'', JStr []),
      (utf16 ''age'', JStr (utf16 ''   ''))]"

text \<open>Two fetched objects whose identifier is the array \<open>[1]\<close>, and a \<open>ToString\<close> that knows
  the string form of that array.\<close>

definition arrayId :: patient where
  "arrayId =
     [(utf16 ''patient_id'', JArr [JNum (Fin 1)]),
      (utf16 ''blood_pressure'', JNull)]"

definition oneToString :: "jsval \<Rightarrow> jsstring option" where
  "oneToString v = (if v = JArr [JNum (Fin 1)] then Some (utf16 ''1'') else None)"

text \<open>A \<open>ToString\<close> that throws on everything that is not a string.\<close>

definition noConversion :: "jsval \<Rightarrow> jsstring option" where
  "noConversion v = None"

text \<open>A server that answers the \<open>k\<close>-th call with the \<open>k\<close>-th outcome of a script, and a
  random number generator that always yields one half.\<close>

definition scripted :: "outcome list \<Rightarrow> env" where
  "scripted script =
     \<lparr>server = (\<lambda>k req. if k < length script then script ! k else Rejected),
      mathRandom = (\<lambda>k. 1 / 2)\<rparr>"

definition answer :: "nat \<Rightarrow> string \<Rightarrow> outcome" where
  "answer code text = Responded \<lparr>status = code, bodyText = Some (utf16 text), bodyJson = None\<rparr>"

definition answerJson :: "jsval \<Rightarrow> outcome" where
  "answerJson v = Responded \<lparr>status = 200, bodyText = None, bodyJson = Some v\<rparr>"

definition busy :: env where
  "busy = scripted [answer 429 ''slow down'', answer 429 ''slow down'', answerJson (JObj [])]"

definition down :: env where
  "down = scripted [answer 503 ''down'', answer 503 ''down'', answer 503 ''down'', answer 503 ''down'']"

definition notFoundOnce :: env where
  "notFoundOnce = scripted [answer 404 ''Not Found'', answerJson (JObj [])]"

definition start :: world where
  "start = \<lparr>calls = 0, draws = 0, trace = []\<rparr>"

definition defaultOpts :: opts where
  "defaultOpts = \<lparr>retries = None, baseDelayMs = None\<rparr>"

text \<open>A page body that claims that more pages follow, and a server that answers every
  request at once: page \<open>p\<close> with \<open>pages p\<close>.\<close>

definition pageBody :: "jsval list \<Rightarrow> jsval" where
  "pageBody items =
     JObj [(utf16 ''data'', JArr items),
           (utf16 ''pagination'', JObj [(utf16 ''hasNext'', JBool True)])]"

definition paged :: "(nat \<Rightarrow> jsval) \<Rightarrow> env" where
  "paged pages =
     \<lparr>server = (\<lambda>k req. case req of
                   GetPatients p l \<Rightarrow> answerJson (pages p)
                 | SubmitAssessment hr fv dq \<Rightarrow> answerJson JNull),
      mathRandom = (\<lambda>k. 1 / 2)\<rparr>"

definition junkFirst :: "nat \<Rightarrow> jsval" where
  "junkFirst p =
     (if p = 1 then pageBody [JNum (Fin 42)]
      else if p = 2 then pageBody [JObj febrile]
      else pageBody [])"

definition twoPages :: "nat \<Rightarrow> jsval" where
  "twoPages p =
     (if p = 1 then pageBody [JObj febrile, JNull]
      else if p = 2 then pageBody [JObj inTheGap]
      else pageBody [])"

section \<open>Properties of the field normalizer and the risk scorer\<close>

lemmas parse_defs = utf16_def isWhiteSpace_def trim_def isDigit_def digitValue_def digitsIn_def
  signedInteger_def exponentPart_def pow10_def digitsValue_def unsignedDecimal_def roundDouble_def
  unsignedLiteral_def strDecimalLiteral_def nonDecimalIntegerLiteral_def StringToNumber_def
  isNonEmptyString_def numberIsFinite_def toFiniteNumber_def parseBloodPressure_def

lemmas score_defs = field_def sysPoints_def diaPoints_def bloodPressureScore_def
  temperatureScore_def ageScore_def hasDataQualityIssue_def isFeverPatient_def totalRiskScore_def

text \<open>What \<open>toFiniteNumber\<close> returns for values that are not strings, and for some
  strings.\<close>

lemma toFiniteNumber_non_strings:
  "toFiniteNumber (JNum (Fin q)) = Some q"
  "toFiniteNumber (JNum NaN) = None"
  "toFiniteNumber (JNum PosInf) = None"
  "toFiniteNumber (JNum NegInf) = None"
  "toFiniteNumber JNull = None"
  "toFiniteNumber JUndefined = None"
  "toFiniteNumber (JBool b) = None"
  "toFiniteNumber (JArr xs) = None"
  "toFiniteNumber (JObj kvs) = None"
  by (simp_all add: toFiniteNumber_def numberIsFinite_def)

lemma toFiniteNumber_strings:
  "toFiniteNumber (JStr (utf16 '' 98.6 '')) = Some (986 / 10)"
  "toFiniteNumber (JStr (utf16 ''1e3'')) = Some 1000"
  "toFiniteNumber (JStr (utf16 ''-2.5E-1'')) = Some (- 1 / 4)"
  "toFiniteNumber (JStr (utf16 ''0x1F'')) = Some 31"
  "toFiniteNumber (JStr (utf16 ''TEMP_ERROR'')) = None"
  "toFiniteNumber (JStr (utf16 ''12abc'')) = None"
  "toFiniteNumber (JStr (utf16 ''1e'')) = None"
  "toFiniteNumber (JStr (utf16 ''98.6.1'')) = None"
  "toFiniteNumber (JStr (utf16 ''NaN'')) = None"
  "toFiniteNumber (JStr (utf16 ''Infinity'')) = None"
  "toFiniteNumber (JStr (utf16 ''-Infinity'')) = None"
  "toFiniteNumber (JStr (utf16 ''1e400'')) = None"
  "toFiniteNumber (JStr (utf16 ''-1e400'')) = None"
  by (simp_all add: parse_defs)

text \<open>
  C4. The empty string and a string of blanks normalize to the number 0, not to \<open>null\<close>,
  because \<open>Number("")\<close> is \<open>0\<close>; \<open>parseBloodPressure\<close> rejects an empty part before it
  normalizes. A record whose temperature is \<open>""\<close> and whose age is \<open>"   "\<close> has no
  data-quality issue and gets an age point.
\<close>

theorem blank_string_normalizes_to_zero:
  "toFiniteNumber (JStr []) = Some 0
   \<and> toFiniteNumber (JStr (utf16 ''   '')) = Some 0
   \<and> parseBloodPressure (JStr (utf16 ''/'')) = None
   \<and> parseBloodPressure (JStr (utf16 ''120/ '')) = None
   \<and> field blankVitals ''temperature'' = JStr []
   \<and> field blankVitals ''age'' = JStr (utf16 ''   '')
   \<and> \<not> hasDataQualityIssue blankVitals
   \<and> ageScore (field blankVitals ''age'') = 1
   \<and> toFiniteNumber (JStr (utf16 ''12abc'')) = None
   \<and> toFiniteNumber (JStr (utf16 ''1e400'')) = None
   \<and> toFiniteNumber (JStr (utf16 ''1e3'')) = Some 1000"
  by (simp add: blankVitals_def score_defs parse_defs)

text \<open>
  C10. A temperature that normalizes to a value strictly between 100.9 and 101.0 scores
  0, and the patient is a fever patient.
\<close>

theorem temperature_gap:
  assumes "toFiniteNumber (field p ''temperature'') = Some t"
    and "1009 / 10 < t" and "t < 101"
  shows "temperatureScore (field p ''temperature'') = 0 \<and> isFeverPatient p"
  using assms by (simp add: temperatureScore_def isFeverPatient_def)

theorem temperature_gap_witness:
  "toFiniteNumber (field inTheGap ''temperature'') = Some (10095 / 100)
   \<and> (1009 / 10 < (10095 / 100 :: rat)) \<and> (10095 / 100 < (101 :: rat))
   \<and> temperatureScore (field inTheGap ''temperature'') = 0 \<and> isFeverPatient inTheGap"
proof -
  have a: "toFiniteNumber (field inTheGap ''temperature'') = Some (10095 / 100)"
    by (simp add: inTheGap_def field_def parse_defs)
  have b: "1009 / 10 < (10095 / 100 :: rat)" and c: "10095 / 100 < (101 :: rat)"
    by simp_all
  from temperature_gap [OF a b c] a b c show ?thesis by blast
qed

lemma parseBloodPressure_JNull: "parseBloodPressure JNull = None"
  by (simp add: parseBloodPressure_def isNonEmptyString_def)

lemma bloodPressureScore_ge_1:
  "parseBloodPressure bp = Some sd \<Longrightarrow> 1 \<le> bloodPressureScore bp"
  by (cases sd) (simp add: bloodPressureScore_def sysPoints_def diaPoints_def)

text \<open>
  C5, as stated, at a record with \<open>blood_pressure\<close> \<open>null\<close>, temperature 98.6 and age 50:
  both vitals are valid and the record is flagged, but its temperature points are zero.
\<close>

theorem valid_temperature_may_score_zero:
  "field afebrile ''blood_pressure'' = JNull
   \<and> toFiniteNumber (field afebrile ''temperature'') = Some (986 / 10)
   \<and> toFiniteNumber (field afebrile ''age'') = Some 50
   \<and> hasDataQualityIssue afebrile
   \<and> temperatureScore (field afebrile ''temperature'') = 0"
  by (simp add: afebrile_def score_defs parse_defs)

text \<open>
  C5, amended. A record is flagged exactly when blood pressure, temperature or age
  fails to normalize. The total is the sum of the three field scores, each computed
  from its own field whatever the flag says: a field that fails contributes 0, a blood
  pressure or an age that parses contributes at least 1, and a temperature that parses
  contributes the points of its band, which are nonzero exactly from 99.6 to 100.9 and
  from 101.0 up. In particular a record with \<open>blood_pressure\<close> \<open>null\<close> and valid temperature
  and age is flagged, and its total is its temperature points plus its age points, the
  age points being nonzero.
\<close>

theorem quality_flag_and_partial_scores:
  "(hasDataQualityIssue p \<longleftrightarrow>
      parseBloodPressure (field p ''blood_pressure'') = None
      \<or> toFiniteNumber (field p ''temperature'') = None
      \<or> toFiniteNumber (field p ''age'') = None)
   \<and> totalRiskScore p =
       bloodPressureScore (field p ''blood_pressure'')
       + temperatureScore (field p ''temperature'') + ageScore (field p ''age'')
   \<and> (parseBloodPressure (field p ''blood_pressure'') = None
        \<longrightarrow> bloodPressureScore (field p ''blood_pressure'') = 0)
   \<and> (toFiniteNumber (field p ''temperature'') = None
        \<longrightarrow> temperatureScore (field p ''temperature'') = 0)
   \<and> (toFiniteNumber (field p ''age'') = None \<longrightarrow> ageScore (field p ''age'') = 0)
   \<and> (parseBloodPressure (field p ''blood_pressure'') \<noteq> None
        \<longrightarrow> 1 \<le> bloodPressureScore (field p ''blood_pressure''))
   \<and> (toFiniteNumber (field p ''age'') \<noteq> None \<longrightarrow> 1 \<le> ageScore (field p ''age''))
   \<and> (toFiniteNumber (field p ''temperature'') = Some t
        \<longrightarrow> (1 \<le> temperatureScore (field p ''temperature'')
              \<longleftrightarrow> (996 / 10 \<le> t \<and> t \<le> 1009 / 10) \<or> 101 \<le> t))
   \<and> (field p ''blood_pressure'' = JNull
        \<and> toFiniteNumber (field p ''temperature'') \<noteq> None
        \<and> toFiniteNumber (field p ''age'') \<noteq> None
        \<longrightarrow> hasDataQualityIssue p
            \<and> totalRiskScore p
                = temperatureScore (field p ''temperature'') + ageScore (field p ''age'')
            \<and> 1 \<le> ageScore (field p ''age''))"
proof (intro conjI)
  show "hasDataQualityIssue p \<longleftrightarrow>
      parseBloodPressure (field p ''blood_pressure'') = None
      \<or> toFiniteNumber (field p ''temperature'') = None
      \<or> toFiniteNumber (field p ''age'') = None"
    by (simp add: hasDataQualityIssue_def)
  show "totalRiskScore p =
       bloodPressureScore (field p ''blood_pressure'')
       + temperatureScore (field p ''temperature'') + ageScore (field p ''age'')"
    by (simp add: totalRiskScore_def)
  show "parseBloodPressure (field p ''blood_pressure'') = None
        \<longrightarrow> bloodPressureScore (field p ''blood_pressure'') = 0"
    by (simp add: bloodPressureScore_def)
  show "toFiniteNumber (field p ''temperature'') = None
        \<longrightarrow> temperatureScore (field p ''temperature'') = 0"
    by (simp add: temperatureScore_def)
  show "toFiniteNumber (field p ''age'') = None \<longrightarrow> ageScore (field p ''age'') = 0"
    by (simp add: ageScore_def)
  show "parseBloodPressure (field p ''blood_pressure'') \<noteq> None
        \<longrightarrow> 1 \<le> bloodPressureScore (field p ''blood_pressure'')"
    using bloodPressureScore_ge_1 by blast
  show age: "toFiniteNumber (field p ''age'') \<noteq> None \<longrightarrow> 1 \<le> ageScore (field p ''age'')"
    by (auto simp: ageScore_def)
  show "toFiniteNumber (field p ''temperature'') = Some t
        \<longrightarrow> (1 \<le> temperatureScore (field p ''temperature'')
              \<longleftrightarrow> (996 / 10 \<le> t \<and> t \<le> 1009 / 10) \<or> 101 \<le> t)"
    by (auto simp: temperatureScore_def)
  show "field p ''blood_pressure'' = JNull
        \<and> toFiniteNumber (field p ''temperature'') \<noteq> None
        \<and> toFiniteNumber (field p ''age'') \<noteq> None
        \<longrightarrow> hasDataQualityIssue p
            \<and> totalRiskScore p
                = temperatureScore (field p ''temperature'') + ageScore (field p ''age'')
            \<and> 1 \<le> ageScore (field p ''age'')"
    using age
    by (simp add: hasDataQualityIssue_def totalRiskScore_def bloodPressureScore_def
        parseBloodPressure_JNull)
qed

theorem quality_flag_and_partial_scores_witness:
  "field febrile ''blood_pressure'' = JNull
   \<and> toFiniteNumber (field febrile ''temperature'') = Some (1015 / 10)
   \<and> toFiniteNumber (field febrile ''age'') = Some 70
   \<and> hasDataQualityIssue febrile
   \<and> bloodPressureScore (field febrile ''blood_pressure'') = 0
   \<and> temperatureScore (field febrile ''temperature'') = 2
   \<and> ageScore (field febrile ''age'') = 2
   \<and> totalRiskScore febrile = 4"
proof -
  have bp: "field febrile ''blood_pressure'' = JNull"
    by (simp add: febrile_def field_def utf16_def)
  have t: "toFiniteNumber (field febrile ''temperature'') = Some (1015 / 10)"
    by (simp add: febrile_def field_def parse_defs)
  have a: "toFiniteNumber (field febrile ''age'') = Some 70"
    by (simp add: febrile_def field_def parse_defs)
  have ts: "temperatureScore (field febrile ''temperature'') = 2"
    by (simp add: temperatureScore_def t)
  have ages: "ageScore (field febrile ''age'') = 2"
    by (simp add: ageScore_def a)
  have none: "parseBloodPressure (field febrile ''blood_pressure'') = None"
    by (simp add: bp parseBloodPressure_JNull)
  have tn: "toFiniteNumber (field febrile ''temperature'') \<noteq> None"
    and an: "toFiniteNumber (field febrile ''age'') \<noteq> None"
    by (simp_all add: t a)
  note inst = quality_flag_and_partial_scores [of febrile "1015 / 10"]
  from inst bp tn an have flag: "hasDataQualityIssue febrile"
    by blast
  from inst bp tn an have total: "totalRiskScore febrile
        = temperatureScore (field febrile ''temperature'') + ageScore (field febrile ''age'')"
    by blast
  from inst none have bs: "bloodPressureScore (field febrile ''blood_pressure'') = 0"
    by blast
  from bp t a flag bs ts ages total show ?thesis by simp
qed

text \<open>Away from the values strictly between two bands the score is the maximum of the
  two categories, and an input that does not parse scores 0.\<close>

lemma bloodPressureScore_on_the_bands:
  assumes "parseBloodPressure bp = Some (s, d)"
    and "\<not> (129 < s \<and> s < 130)" and "\<not> (139 < s \<and> s < 140)" and "\<not> (89 < d \<and> d < 90)"
  shows "bloodPressureScore bp = max (specSystolicCategory s) (specDiastolicCategory d)"
  using assms
  by (auto simp: bloodPressureScore_def sysPoints_def diaPoints_def specSystolicCategory_def
      specDiastolicCategory_def)

lemma bloodPressureScore_unparsed:
  "parseBloodPressure bp = None \<Longrightarrow> bloodPressureScore bp = 0"
  by (simp add: bloodPressureScore_def)

text \<open>
  C6. On the blood pressure \<open>"129.5/70"\<close>, which parses to systolic 129.5 and diastolic
  70, the score is 4, the points of a systolic value of 140 or more, where the maximum of
  the two categories is 2.
\<close>

theorem bloodPressureScore_between_bands:
  "parseBloodPressure (JStr (utf16 ''129.5/70'')) = Some (259 / 2, 70)
   \<and> bloodPressureScore (JStr (utf16 ''129.5/70'')) = 4
   \<and> max (specSystolicCategory (259 / 2)) (specDiastolicCategory 70) = 2"
  by (simp add: bloodPressureScore_def sysPoints_def diaPoints_def parse_defs
      specSystolicCategory_def specDiastolicCategory_def)

section \<open>Properties of the submission orchestrator\<close>

lemma sameValueZero_eq: "sameValueZero x y \<Longrightarrow> x = y"
  by (simp add: sameValueZero_def)

lemma set_setAdd: "set (setAdd x s) = insert x (set s)"
  by (auto simp: setAdd_def list_ex_iff dest: sameValueZero_eq)

lemma noSameValue_iff: "noSameValue xs \<longleftrightarrow> distinct (filter isPrimitive xs)"
  by (induction xs) (auto simp: list_ex_iff sameValueZero_def)

lemma noSameValue_setAdd: "noSameValue s \<Longrightarrow> noSameValue (setAdd x s)"
  by (auto simp: noSameValue_iff setAdd_def list_ex_iff sameValueZero_def)

lemma highRisk_classify:
  "highRisk (classify a p) =
     (if truthy (field p ''patient_id'') \<and> 4 \<le> totalRiskScore p
      then setAdd (field p ''patient_id'') (highRisk a) else highRisk a)"
  by (simp add: classify_def Let_def)

lemma fever_classify:
  "fever (classify a p) =
     (if truthy (field p ''patient_id'') \<and> isFeverPatient p
      then setAdd (field p ''patient_id'') (fever a) else fever a)"
  by (simp add: classify_def Let_def)

lemma dataIssues_classify:
  "dataIssues (classify a p) =
     (if truthy (field p ''patient_id'') \<and> hasDataQualityIssue p
      then setAdd (field p ''patient_id'') (dataIssues a) else dataIssues a)"
  by (simp add: classify_def Let_def)

lemmas classify_fields = highRisk_classify fever_classify dataIssues_classify

lemma set_highRisk_foldl:
  "set (highRisk (foldl classify a ps)) =
     set (highRisk a) \<union>
     {field p ''patient_id'' | p. p \<in> set ps \<and> truthy (field p ''patient_id'') \<and> 4 \<le> totalRiskScore p}"
  by (induction ps arbitrary: a) (auto simp: highRisk_classify set_setAdd)

lemma set_fever_foldl:
  "set (fever (foldl classify a ps)) =
     set (fever a) \<union>
     {field p ''patient_id'' | p. p \<in> set ps \<and> truthy (field p ''patient_id'') \<and> isFeverPatient p}"
  by (induction ps arbitrary: a) (auto simp: fever_classify set_setAdd)

lemma set_dataIssues_foldl:
  "set (dataIssues (foldl classify a ps)) =
     set (dataIssues a) \<union>
     {field p ''patient_id'' | p. p \<in> set ps \<and> truthy (field p ''patient_id'') \<and> hasDataQualityIssue p}"
  by (induction ps arbitrary: a) (auto simp: dataIssues_classify set_setAdd)

lemma noSameValue_foldl:
  "noSameValue (highRisk a) \<and> noSameValue (fever a) \<and> noSameValue (dataIssues a) \<Longrightarrow>
   noSameValue (highRisk (foldl classify a ps)) \<and> noSameValue (fever (foldl classify a ps))
   \<and> noSameValue (dataIssues (foldl classify a ps))"
proof (induction ps arbitrary: a)
  case Nil
  then show ?case by simp
next
  case (Cons p ps)
  have "noSameValue (highRisk (classify a p)) \<and> noSameValue (fever (classify a p))
        \<and> noSameValue (dataIssues (classify a p))"
    using Cons.prems by (simp add: classify_fields noSameValue_setAdd)
  from Cons.IH [OF this] show ?case by simp
qed

lemma noSameValue_classifyAll:
  "noSameValue (highRisk (classifyAll ps))"
  "noSameValue (fever (classifyAll ps))"
  "noSameValue (dataIssues (classifyAll ps))"
  using noSameValue_foldl [of noAlerts ps] by (simp_all add: classifyAll_def noAlerts_def)

lemma jsSort_Inr:
  assumes "jsSort conv xs = Inr out"
  shows "out = sort_key (sortKey conv) xs"
proof (cases "length xs < 2")
  case True
  then have "xs = [] \<or> (\<exists>x. xs = [x])"
    by (cases xs) (auto simp: less_Suc_eq_0_disj)
  with assms True show ?thesis by (auto simp: jsSort_def)
next
  case False
  with assms show ?thesis by (auto simp: jsSort_def split: if_splits)
qed

lemma jsSort_sorted:
  assumes "jsSort conv xs = Inr out"
  shows "sorted (map (sortKey conv) out)" and "set out = set xs"
    and "noSameValue xs \<Longrightarrow> noSameValue out"
  using jsSort_Inr [OF assms] by (simp_all add: noSameValue_iff filter_sort)

lemma sortKey_JStr: "sortKey conv (JStr s) = s"
  by (simp add: sortKey_def jsToString_def)

lemma setAdd_idem: "isPrimitive v \<Longrightarrow> setAdd v (setAdd v s) = setAdd v s"
  by (auto simp: setAdd_def list_ex_iff sameValueZero_def)

text \<open>
  C8. The iteration for a record whose identifier passes the guard adds the identifier to
  the high-risk set exactly when the total score is at least 4, and the set built over
  all records holds exactly the identifiers of such records. The records of the witness
  have totals 3 and 4.
\<close>

theorem high_risk_iff_total_at_least_4:
  "(truthy (field p ''patient_id'') \<longrightarrow>
      highRisk (classify a p) =
        (if 4 \<le> totalRiskScore p then setAdd (field p ''patient_id'') (highRisk a)
         else highRisk a))
   \<and> (v \<in> set (highRisk (classifyAll ps)) \<longleftrightarrow>
        (\<exists>p\<in>set ps. field p ''patient_id'' = v \<and> truthy v \<and> 4 \<le> totalRiskScore p))"
  by (auto simp: highRisk_classify classifyAll_def set_highRisk_foldl noAlerts_def)

lemma totalThree_facts:
  "field totalThree ''patient_id'' = JStr (utf16 ''DEMO010'')" "totalRiskScore totalThree = 3"
  by (simp_all add: totalThree_def score_defs parse_defs)

lemma totalFour_facts:
  "field totalFour ''patient_id'' = JStr (utf16 ''DEMO011'')" "totalRiskScore totalFour = 4"
  by (simp_all add: totalFour_def score_defs parse_defs)

theorem high_risk_iff_total_at_least_4_witness:
  "truthy (field totalThree ''patient_id'') \<and> totalRiskScore totalThree = 3
   \<and> truthy (field totalFour ''patient_id'') \<and> totalRiskScore totalFour = 4
   \<and> highRisk (classify noAlerts totalThree) = []
   \<and> highRisk (classify noAlerts totalFour) = [JStr (utf16 ''DEMO011'')]
   \<and> JStr (utf16 ''DEMO010'') \<notin> set (highRisk (classifyAll [totalThree, totalFour]))
   \<and> JStr (utf16 ''DEMO011'') \<in> set (highRisk (classifyAll [totalThree, totalFour]))"
proof -
  have t3: "truthy (field totalThree ''patient_id'')" and t4: "truthy (field totalFour ''patient_id'')"
    by (simp_all add: totalThree_facts totalFour_facts utf16_def)
  have ne: "JStr (utf16 ''DEMO010'') \<noteq> JStr (utf16 ''DEMO011'')"
    by (simp add: utf16_def)
  have a: "highRisk (classify noAlerts totalThree) = []"
    using high_risk_iff_total_at_least_4 [of totalThree noAlerts undefined "[]"] t3
    by (simp add: totalThree_facts noAlerts_def)
  have b: "highRisk (classify noAlerts totalFour) = [JStr (utf16 ''DEMO011'')]"
    using high_risk_iff_total_at_least_4 [of totalFour noAlerts undefined "[]"] t4
    by (simp add: totalFour_facts noAlerts_def setAdd_def)
  have c: "JStr (utf16 ''DEMO010'') \<notin> set (highRisk (classifyAll [totalThree, totalFour]))"
    using high_risk_iff_total_at_least_4 [of totalThree noAlerts "JStr (utf16 ''DEMO010'')" "[totalThree, totalFour]"] ne
    by (simp add: totalThree_facts totalFour_facts)
  have d: "JStr (utf16 ''DEMO011'') \<in> set (highRisk (classifyAll [totalThree, totalFour]))"
    using high_risk_iff_total_at_least_4 [of totalThree noAlerts "JStr (utf16 ''DEMO011'')" "[totalThree, totalFour]"] t4
    by (simp add: totalThree_facts totalFour_facts)
  from t3 t4 a b c d show ?thesis by (simp add: totalThree_facts totalFour_facts)
qed

text \<open>
  C3, as stated, at a fetched object whose \<open>patient_id\<close> is the number 42: it passes the
  filter of the pagination and the guard of \<open>main\<close>, and 42, which is not a string, is
  placed in the data-quality set.
\<close>

theorem numeric_identifier_is_placed:
  "looksLikePatient (JObj numericId)
   \<and> pushPatients [] [JObj numericId] = [numericId]
   \<and> field numericId ''patient_id'' = JNum (Fin 42)
   \<and> dataIssues (classifyAll [numericId]) = [JNum (Fin 42)]
   \<and> \<not> isString (JNum (Fin 42))"
  by (simp add: numericId_def looksLikePatient_def classifyAll_def classify_def Let_def noAlerts_def
      setAdd_def score_defs parse_defs)

lemma pushPatients_eq:
  "pushPatients all items = all @ map asPatient (filter looksLikePatient items)"
  by (induction items arbitrary: all) simp_all

lemma classify_falsy: "\<not> truthy (field p ''patient_id'') \<Longrightarrow> classify a p = a"
  by (simp add: classify_def)

text \<open>
  C3, amended. Every identifier in any of the three alert sets is the \<open>patient_id\<close> of a
  processed record and is truthy, so it is not the empty string. A record whose
  \<open>patient_id\<close> is falsy (missing, \<open>null\<close>, \<open>""\<close>, \<open>0\<close>, \<open>false\<close>) leaves the three sets as
  they are, and the pagination keeps exactly the objects that have a \<open>patient_id\<close> key.
\<close>

theorem alert_identifiers_are_truthy_patient_ids:
  "(v \<in> set (highRisk (classifyAll ps)) \<union> set (fever (classifyAll ps))
         \<union> set (dataIssues (classifyAll ps))
      \<longrightarrow> (\<exists>p\<in>set ps. field p ''patient_id'' = v) \<and> truthy v \<and> v \<noteq> JStr [])
   \<and> (\<not> truthy (field p ''patient_id'') \<longrightarrow> classify a p = a)
   \<and> set (pushPatients all items) = set all \<union> asPatient ` {i \<in> set items. looksLikePatient i}
   \<and> (looksLikePatient item \<longleftrightarrow>
        (\<exists>props. item = JObj props \<and> map_of props (utf16 ''patient_id'') \<noteq> None))"
proof (intro conjI)
  show "v \<in> set (highRisk (classifyAll ps)) \<union> set (fever (classifyAll ps))
         \<union> set (dataIssues (classifyAll ps))
      \<longrightarrow> (\<exists>p\<in>set ps. field p ''patient_id'' = v) \<and> truthy v \<and> v \<noteq> JStr []"
    by (auto simp: classifyAll_def noAlerts_def set_highRisk_foldl set_fever_foldl
        set_dataIssues_foldl)
  show "\<not> truthy (field p ''patient_id'') \<longrightarrow> classify a p = a"
    by (simp add: classify_falsy)
  show "set (pushPatients all items) = set all \<union> asPatient ` {i \<in> set items. looksLikePatient i}"
    by (auto simp: pushPatients_eq)
  show "looksLikePatient item \<longleftrightarrow>
        (\<exists>props. item = JObj props \<and> map_of props (utf16 ''patient_id'') \<noteq> None)"
    by (cases item) (simp_all add: looksLikePatient_def)
qed

lemma febrile_facts:
  "field febrile ''patient_id'' = JStr (utf16 ''DEMO003'')"
  "hasDataQualityIssue febrile" "isFeverPatient febrile" "totalRiskScore febrile = 4"
  by (simp_all add: febrile_def score_defs parse_defs)

lemma emptyId_facts:
  "field emptyId ''patient_id'' = JStr []"
  by (simp_all add: emptyId_def score_defs parse_defs)

theorem alert_identifiers_are_truthy_patient_ids_witness:
  "JStr (utf16 ''DEMO003'') \<in> set (dataIssues (classifyAll [febrile, emptyId]))
   \<and> field febrile ''patient_id'' = JStr (utf16 ''DEMO003'')
   \<and> truthy (JStr (utf16 ''DEMO003''))
   \<and> \<not> truthy (field emptyId ''patient_id'')
   \<and> classify (classifyAll [febrile]) emptyId = classifyAll [febrile]
   \<and> dataIssues (classifyAll [febrile, emptyId]) = [JStr (utf16 ''DEMO003'')]"
proof -
  have l: "dataIssues (classifyAll [febrile, emptyId]) = [JStr (utf16 ''DEMO003'')]"
    by (simp add: classifyAll_def classify_def Let_def noAlerts_def setAdd_def febrile_facts
        emptyId_facts utf16_def)
  then have m: "JStr (utf16 ''DEMO003'') \<in> set (dataIssues (classifyAll [febrile, emptyId]))"
    by simp
  have f: "\<not> truthy (field emptyId ''patient_id'')"
    by (simp add: emptyId_facts)
  note inst = alert_identifiers_are_truthy_patient_ids
    [of "JStr (utf16 ''DEMO003'')" "[febrile, emptyId]" emptyId "classifyAll [febrile]" "[]" "[]" JNull]
  from inst m have t: "truthy (JStr (utf16 ''DEMO003''))"
    by blast
  from inst f have c: "classify (classifyAll [febrile]) emptyId = classifyAll [febrile]"
    by blast
  from l m f t c show ?thesis by (simp add: febrile_facts)
qed

lemma sort_key_short: "length xs < 2 \<Longrightarrow> sort_key f xs = xs"
  by (cases xs) (auto simp: less_Suc_eq_0_disj)

lemma jsSort_total:
  assumes "\<not> list_ex (\<lambda>v. jsToString conv v = None) xs"
  shows "jsSort conv xs = Inr (sort_key (sortKey conv) xs)"
  using assms by (simp add: jsSort_def sort_key_short)

lemma classifyAll_ids:
  assumes "list_all (\<lambda>p. truthy (field p ''patient_id'') \<longrightarrow> P (field p ''patient_id'')) ps"
  shows "list_all P (highRisk (classifyAll ps))"
    and "list_all P (fever (classifyAll ps))"
    and "list_all P (dataIssues (classifyAll ps))"
  using assms
  by (auto simp: list_all_iff classifyAll_def noAlerts_def set_highRisk_foldl set_fever_foldl
      set_dataIssues_foldl)

lemma buildSubmission_total:
  assumes "list_all (\<lambda>p. truthy (field p ''patient_id'')
                        \<longrightarrow> jsToString conv (field p ''patient_id'') \<noteq> None) ps"
  shows "\<exists>body. buildSubmission conv (classifyAll ps) = Inr body"
proof -
  have "\<not> list_ex (\<lambda>v. jsToString conv v = None) xs"
    if "list_all (\<lambda>v. jsToString conv v \<noteq> None) xs" for xs
    using that by (auto simp: list_all_iff list_ex_iff)
  with classifyAll_ids [OF assms] show ?thesis
    by (simp add: buildSubmission_def jsSort_total)
qed

lemma noSameValue_primitives: "list_all isPrimitive xs \<Longrightarrow> noSameValue xs \<Longrightarrow> distinct xs"
proof -
  assume a: "list_all isPrimitive xs" and b: "noSameValue xs"
  from a have "filter isPrimitive xs = xs"
    by (simp add: list_all_iff)
  with b show ?thesis by (simp add: noSameValue_iff)
qed

text \<open>
  C9, as stated, at two fetched records whose \<open>patient_id\<close> is the array \<open>[1]\<close>: the two
  arrays are different objects for the \<open>Set\<close>, and the data-quality list of the submission
  holds \<open>[1]\<close> twice.
\<close>

theorem array_identifier_is_listed_twice:
  "looksLikePatient (JObj arrayId)
   \<and> field arrayId ''patient_id'' = JArr [JNum (Fin 1)]
   \<and> dataIssues (classifyAll [arrayId, arrayId]) = [JArr [JNum (Fin 1)], JArr [JNum (Fin 1)]]
   \<and> buildSubmission oneToString (classifyAll [arrayId, arrayId]) =
       Inr \<lparr>high_risk_patients = [], fever_patients = [],
            data_quality_issues = [JArr [JNum (Fin 1)], JArr [JNum (Fin 1)]]\<rparr>
   \<and> \<not> distinct [JArr [JNum (Fin 1)], JArr [JNum (Fin 1)]]"
proof -
  have f: "field arrayId ''patient_id'' = JArr [JNum (Fin 1)]" "hasDataQualityIssue arrayId"
    "\<not> isFeverPatient arrayId" "totalRiskScore arrayId = 0"
    by (simp_all add: arrayId_def score_defs parse_defs)
  have c: "classifyAll [arrayId, arrayId] =
      \<lparr>highRisk = [], fever = [], dataIssues = [JArr [JNum (Fin 1)], JArr [JNum (Fin 1)]]\<rparr>"
    by (simp add: classifyAll_def classify_def Let_def noAlerts_def setAdd_def sameValueZero_def
        isPrimitive_def f)
  have b: "buildSubmission oneToString (classifyAll [arrayId, arrayId]) =
       Inr \<lparr>high_risk_patients = [], fever_patients = [],
            data_quality_issues = [JArr [JNum (Fin 1)], JArr [JNum (Fin 1)]]\<rparr>"
    by (simp add: c buildSubmission_def jsSort_def jsToString_def sortKey_def oneToString_def)
  have l: "looksLikePatient (JObj arrayId)"
    by (simp add: looksLikePatient_def arrayId_def utf16_def)
  from f c b l show ?thesis by simp
qed

text \<open>
  C9, amended. In a run whose patient identifiers are primitive values (strings, numbers,
  booleans, \<open>null\<close>), each of the three lists of the submission is in ascending order of
  the code units of its entries' string forms, a string being its own string form, and
  has no duplicates. The lists exist whenever every identifier that passes the guard has
  a string form, as every string has. Adding a primitive value that the set already
  holds changes nothing.
\<close>

theorem output_lists_sorted_without_duplicates:
  assumes "list_all (\<lambda>p. isPrimitive (field p ''patient_id'')) ps"
  shows "(buildSubmission conv (classifyAll ps) = Inr body
          \<and> out \<in> set [high_risk_patients body, fever_patients body, data_quality_issues body]
         \<longrightarrow> sorted (map (sortKey conv) out) \<and> sortKey conv (JStr s) = s \<and> distinct out)
       \<and> (list_all (\<lambda>p. truthy (field p ''patient_id'')
                          \<longrightarrow> jsToString conv (field p ''patient_id'') \<noteq> None) ps
          \<longrightarrow> (\<exists>b. buildSubmission conv (classifyAll ps) = Inr b))
       \<and> jsToString conv (JStr s) = Some s
       \<and> (isPrimitive v \<longrightarrow> setAdd v (setAdd v xs) = setAdd v xs)"
proof (intro conjI impI)
  assume a: "buildSubmission conv (classifyAll ps) = Inr body
       \<and> out \<in> set [high_risk_patients body, fever_patients body, data_quality_issues body]"
  then obtain hr fv dq where hr: "jsSort conv (highRisk (classifyAll ps)) = Inr hr"
    and fv: "jsSort conv (fever (classifyAll ps)) = Inr fv"
    and dq: "jsSort conv (dataIssues (classifyAll ps)) = Inr dq"
    and body: "body = \<lparr>high_risk_patients = hr, fever_patients = fv, data_quality_issues = dq\<rparr>"
    by (auto simp: buildSubmission_def split: sum.splits)
  have prim: "list_all (\<lambda>p. truthy (field p ''patient_id'') \<longrightarrow> isPrimitive (field p ''patient_id'')) ps"
    using assms by (simp add: list_all_iff)
  have both: "sorted (map (sortKey conv) out) \<and> noSameValue out \<and> list_all isPrimitive out"
    using a body jsSort_sorted [OF hr] jsSort_sorted [OF fv] jsSort_sorted [OF dq]
      noSameValue_classifyAll [of ps] classifyAll_ids [OF prim]
    by (auto simp: list_all_iff)
  from both show "sorted (map (sortKey conv) out)" by simp
  from both show "distinct out" by (simp add: noSameValue_primitives)
  show "sortKey conv (JStr s) = s"
    by (rule sortKey_JStr)
next
  assume "list_all (\<lambda>p. truthy (field p ''patient_id'')
                          \<longrightarrow> jsToString conv (field p ''patient_id'') \<noteq> None) ps"
  then show "\<exists>b. buildSubmission conv (classifyAll ps) = Inr b"
    by (rule buildSubmission_total)
next
  show "jsToString conv (JStr s) = Some s"
    by (simp add: jsToString_def)
next
  assume "isPrimitive v"
  then show "setAdd v (setAdd v xs) = setAdd v xs"
    by (rule setAdd_idem)
qed

theorem output_lists_sorted_without_duplicates_witness:
  "list_all (\<lambda>p. isPrimitive (field p ''patient_id'')) [febrile, inTheGap, febrile]
   \<and> buildSubmission noConversion (classifyAll [febrile, inTheGap, febrile]) =
     Inr \<lparr>high_risk_patients = [JStr (utf16 ''DEMO003'')],
          fever_patients = [JStr (utf16 ''DEMO001''), JStr (utf16 ''DEMO003'')],
          data_quality_issues = [JStr (utf16 ''DEMO001''), JStr (utf16 ''DEMO003'')]\<rparr>
   \<and> fever (classifyAll [febrile, inTheGap, febrile]) = [JStr (utf16 ''DEMO003''), JStr (utf16 ''DEMO001'')]
   \<and> sorted [utf16 ''DEMO001'', utf16 ''DEMO003'']
   \<and> distinct [JStr (utf16 ''DEMO001''), JStr (utf16 ''DEMO003'')]
   \<and> setAdd (JStr (utf16 ''DEMO003'')) (setAdd (JStr (utf16 ''DEMO003'')) [])
       = setAdd (JStr (utf16 ''DEMO003'')) []"
proof -
  have g: "field inTheGap ''patient_id'' = JStr (utf16 ''DEMO001'')"
    "hasDataQualityIssue inTheGap" "isFeverPatient inTheGap" "totalRiskScore inTheGap = 0"
    by (simp_all add: inTheGap_def score_defs parse_defs)
  have c: "classifyAll [febrile, inTheGap, febrile] =
      \<lparr>highRisk = [JStr (utf16 ''DEMO003'')],
       fever = [JStr (utf16 ''DEMO003''), JStr (utf16 ''DEMO001'')],
       dataIssues = [JStr (utf16 ''DEMO003''), JStr (utf16 ''DEMO001'')]\<rparr>"
    by (simp add: classifyAll_def classify_def Let_def noAlerts_def setAdd_def sameValueZero_def
        isPrimitive_def febrile_facts g utf16_def)
  have b: "buildSubmission noConversion (classifyAll [febrile, inTheGap, febrile]) =
     Inr \<lparr>high_risk_patients = [JStr (utf16 ''DEMO003'')],
          fever_patients = [JStr (utf16 ''DEMO001''), JStr (utf16 ''DEMO003'')],
          data_quality_issues = [JStr (utf16 ''DEMO001''), JStr (utf16 ''DEMO003'')]\<rparr>"
    by (simp add: c buildSubmission_def jsSort_def jsToString_def sortKey_def utf16_def)
  have prim: "list_all (\<lambda>p. isPrimitive (field p ''patient_id'')) [febrile, inTheGap, febrile]"
    by (simp add: febrile_facts g isPrimitive_def)
  have ids: "list_all (\<lambda>p. truthy (field p ''patient_id'')
        \<longrightarrow> jsToString noConversion (field p ''patient_id'') \<noteq> None) [febrile, inTheGap, febrile]"
    by (simp add: febrile_facts g jsToString_def)
  have p: "isPrimitive (JStr (utf16 ''DEMO003''))"
    by (simp add: isPrimitive_def)
  note inst = output_lists_sorted_without_duplicates
    [OF prim, where conv = noConversion
       and body = "\<lparr>high_risk_patients = [JStr (utf16 ''DEMO003'')],
          fever_patients = [JStr (utf16 ''DEMO001''), JStr (utf16 ''DEMO003'')],
          data_quality_issues = [JStr (utf16 ''DEMO001''), JStr (utf16 ''DEMO003'')]\<rparr>"
       and out = "[JStr (utf16 ''DEMO001''), JStr (utf16 ''DEMO003'')]"
       and s = "[]" and v = "JStr (utf16 ''DEMO003'')" and xs = "[]"]
  from inst ids have ex: "\<exists>b. buildSubmission noConversion (classifyAll [febrile, inTheGap, febrile]) = Inr b"
    by blast
  from inst p have idem: "setAdd (JStr (utf16 ''DEMO003'')) (setAdd (JStr (utf16 ''DEMO003'')) [])
       = setAdd (JStr (utf16 ''DEMO003'')) []"
    by blast
  have "sorted (map (sortKey noConversion) [JStr (utf16 ''DEMO001''), JStr (utf16 ''DEMO003'')])
        \<and> distinct [JStr (utf16 ''DEMO001''), JStr (utf16 ''DEMO003'')]"
    using inst b by simp
  then have "sorted [utf16 ''DEMO001'', utf16 ''DEMO003'']
     \<and> distinct [JStr (utf16 ''DEMO001''), JStr (utf16 ''DEMO003'')]"
    by (simp add: sortKey_JStr)
  with prim b c idem show ?thesis by simp
qed

section \<open>Properties of the retrying transport\<close>

lemma world_eq:
  "w\<lparr>calls := c, draws := d, trace := t\<rparr> = \<lparr>calls = c, draws = d, trace = t\<rparr>"
  "w\<lparr>calls := c, trace := t\<rparr> = \<lparr>calls = c, draws = draws w, trace = t\<rparr>"
  "\<lparr>calls = calls w, draws = draws w, trace = trace w\<rparr> = w"
  by (cases w, simp)+

lemma retryLoop_transient_step:
  assumes "transient (server e (calls w) req)" and "int a < r"
  shows "retryLoop e req r base a w =
         retryLoop e req r base (a + 1)
           \<lparr>calls = calls w + 1, draws = draws w + 1,
            trace = trace w @ [Fetched req,
              Slept (base * 2 ^ a + of_int (jitterOf (mathRandom e (draws w))))]\<rparr>"
proof (cases "server e (calls w) req")
  case Rejected
  with assms(2) show ?thesis
    by (subst retryLoop.simps)
       (simp add: tryBlock_def jsFetch_def backoff_def sleep_def Let_def world_eq)
next
  case (Responded res)
  with assms show ?thesis
    by (subst retryLoop.simps)
       (auto simp: tryBlock_def jsFetch_def backoff_def sleep_def Let_def ok_def world_eq
             split: option.splits)
qed

lemma retryEvents_Suc:
  "retryEvents e req base a d (Suc k) =
     [Fetched req, Slept (base * 2 ^ a + of_int (jitterOf (mathRandom e d)))]
     @ retryEvents e req base (a + 1) (d + 1) k"
  by (simp add: retryEvents_def upt_conv_Cons map_Suc_upt [symmetric] o_def del: upt_Suc)

lemma retryLoop_transient:
  assumes "\<forall>i<k. transient (server e (calls w + i) req)" and "int (a + k) \<le> r"
  shows "retryLoop e req r base a w =
         retryLoop e req r base (a + k)
           \<lparr>calls = calls w + k, draws = draws w + k,
            trace = trace w @ retryEvents e req base a (draws w) k\<rparr>"
  using assms
proof (induction k arbitrary: a w)
  case 0
  then show ?case by (simp add: retryEvents_def world_eq)
next
  case (Suc k)
  let ?w1 = "\<lparr>calls = calls w + 1, draws = draws w + 1,
            trace = trace w @ [Fetched req,
              Slept (base * 2 ^ a + of_int (jitterOf (mathRandom e (draws w))))]\<rparr>"
  from Suc.prems have first: "transient (server e (calls w) req)" and lt: "int a < r"
    by (auto dest: spec [of _ 0])
  from Suc.prems have rest: "\<forall>i<k. transient (server e (calls ?w1 + i) req)"
    and bound: "int (a + 1 + k) \<le> r"
    by auto
  have "retryLoop e req r base a w = retryLoop e req r base (a + 1) ?w1"
    by (rule retryLoop_transient_step [OF first lt])
  also have "\<dots> = retryLoop e req r base (a + 1 + k)
           \<lparr>calls = calls ?w1 + k, draws = draws ?w1 + k,
            trace = trace ?w1 @ retryEvents e req base (a + 1) (draws ?w1) k\<rparr>"
    by (rule Suc.IH [OF rest bound])
  finally show ?case
    by (simp add: retryEvents_Suc)
qed

lemma retryLoop_success:
  assumes "server e (calls w) req = Responded res" and "ok res" and "bodyJson res = Some v"
    and "int a \<le> r"
  shows "retryLoop e req r base a w =
         (Inr v, \<lparr>calls = calls w + 1, draws = draws w, trace = trace w @ [Fetched req]\<rparr>)"
  using assms
  by (subst retryLoop.simps) (simp add: tryBlock_def jsFetch_def ok_def world_eq)

lemma retryLoop_last_attempt:
  assumes "transient (server e (calls w) req)" and "int a = r"
  shows "retryLoop e req r base a w =
         (Inl (lastError (server e (calls w) req)),
          \<lparr>calls = calls w + 1, draws = draws w, trace = trace w @ [Fetched req]\<rparr>)"
proof (cases "server e (calls w) req")
  case Rejected
  with assms(2) show ?thesis
    by (subst retryLoop.simps) (simp add: tryBlock_def jsFetch_def world_eq)
next
  case (Responded res)
  with assms show ?thesis
    by (subst retryLoop.simps)
       (auto simp: tryBlock_def jsFetch_def ok_def world_eq split: option.splits)
qed

lemma jitter_bound:
  assumes "0 \<le> x" and "x < 1"
  shows "0 \<le> jitterOf x \<and> jitterOf x < 150"
proof -
  have "0 \<le> x * 150" and "x * 150 < 150"
    using assms by simp_all
  then show ?thesis
    unfolding jitterOf_def by (simp add: floor_less_iff)
qed

text \<open>
  C7. Let every value of \<open>Math.random()\<close> lie in \<open>[0, 1)\<close> and let \<open>r\<close> be the retry budget
  and \<open>base\<close> the base delay of the call. If the first \<open>k \<le> r\<close> attempts meet a retryable
  status, a rejected \<open>fetch\<close> or a body that does not parse, and the next attempt meets a
  success, the call returns the parsed body of that success after \<open>k + 1\<close> requests and
  \<open>k\<close> waits, no error surfacing. If all \<open>r + 1\<close> attempts meet such failures, the call
  fails with the failure of the last attempt, after \<open>r + 1\<close> requests and \<open>r\<close> waits. The
  wait after attempt \<open>i\<close> is \<open>base * 2^i\<close> plus a jitter, and every jitter is at least 0
  and less than 150.
\<close>

theorem transient_failures_are_retried:
  assumes "r = (case retries os of None \<Rightarrow> 6 | Some n \<Rightarrow> n)"
    and "base = (case baseDelayMs os of None \<Rightarrow> 250 | Some b \<Rightarrow> b)"
    and "0 \<le> r"
    and "\<forall>i. 0 \<le> mathRandom e i \<and> mathRandom e i < 1"
  shows "(k \<le> nat r \<and> (\<forall>i<k. transient (server e (calls w + i) req))
          \<and> server e (calls w + k) req = Responded res \<and> ok res \<and> bodyJson res = Some v
          \<longrightarrow> fetchWithRetry e req os w =
                (Inr v, \<lparr>calls = calls w + k + 1, draws = draws w + k,
                         trace = trace w @ retryEvents e req base 0 (draws w) k @ [Fetched req]\<rparr>))
       \<and> ((\<forall>i\<le>nat r. transient (server e (calls w + i) req))
          \<longrightarrow> fetchWithRetry e req os w =
                (Inl (lastError (server e (calls w + nat r) req)),
                 \<lparr>calls = calls w + nat r + 1, draws = draws w + nat r,
                  trace = trace w @ retryEvents e req base 0 (draws w) (nat r) @ [Fetched req]\<rparr>))
       \<and> retryEvents e req base 0 (draws w) k =
            concat (map (\<lambda>i. [Fetched req,
                        Slept (base * 2 ^ i + of_int (jitterOf (mathRandom e (draws w + i))))])
               [0..<k])
       \<and> (\<forall>i. 0 \<le> jitterOf (mathRandom e i) \<and> jitterOf (mathRandom e i) < 150)"
proof (intro conjI impI)
  have fw: "fetchWithRetry e req os w = retryLoop e req r base 0 w"
    using assms(1,2) by (simp add: fetchWithRetry_def)
  {
    assume a: "k \<le> nat r \<and> (\<forall>i<k. transient (server e (calls w + i) req))
          \<and> server e (calls w + k) req = Responded res \<and> ok res \<and> bodyJson res = Some v"
    let ?wk = "\<lparr>calls = calls w + k, draws = draws w + k,
            trace = trace w @ retryEvents e req base 0 (draws w) k\<rparr>"
    from a have kr: "k \<le> nat r" and tr: "\<forall>i<k. transient (server e (calls w + i) req)"
      by simp_all
    from kr assms(3) have le: "int (0 + k) \<le> r" by linarith
    have "retryLoop e req r base 0 w = retryLoop e req r base (0 + k) ?wk"
      by (rule retryLoop_transient [OF tr le])
    also have "\<dots> = (Inr v, \<lparr>calls = calls ?wk + 1, draws = draws ?wk,
        trace = trace ?wk @ [Fetched req]\<rparr>)"
      using a le by (intro retryLoop_success [where res = res]) simp_all
    finally show "fetchWithRetry e req os w =
                (Inr v, \<lparr>calls = calls w + k + 1, draws = draws w + k,
                         trace = trace w @ retryEvents e req base 0 (draws w) k @ [Fetched req]\<rparr>)"
      by (simp add: fw)
  }
  {
    assume a: "\<forall>i\<le>nat r. transient (server e (calls w + i) req)"
    let ?n = "nat r"
    let ?wn = "\<lparr>calls = calls w + ?n, draws = draws w + ?n,
            trace = trace w @ retryEvents e req base 0 (draws w) ?n\<rparr>"
    from assms(3) have le: "int (0 + ?n) \<le> r" and eq: "int (0 + ?n) = r" by simp_all
    from a have "retryLoop e req r base 0 w = retryLoop e req r base (0 + ?n) ?wn"
      by (intro retryLoop_transient [OF _ le]) simp
    also have "\<dots> = (Inl (lastError (server e (calls ?wn) req)),
          \<lparr>calls = calls ?wn + 1, draws = draws ?wn, trace = trace ?wn @ [Fetched req]\<rparr>)"
      using a eq by (intro retryLoop_last_attempt) simp_all
    finally show "fetchWithRetry e req os w =
                (Inl (lastError (server e (calls w + nat r) req)),
                 \<lparr>calls = calls w + nat r + 1, draws = draws w + nat r,
                  trace = trace w @ retryEvents e req base 0 (draws w) (nat r) @ [Fetched req]\<rparr>)"
      by (simp add: fw)
  }
  show "retryEvents e req base 0 (draws w) k =
            concat (map (\<lambda>i. [Fetched req,
                        Slept (base * 2 ^ i + of_int (jitterOf (mathRandom e (draws w + i))))])
               [0..<k])"
    by (simp add: retryEvents_def)
  show "\<forall>i. 0 \<le> jitterOf (mathRandom e i) \<and> jitterOf (mathRandom e i) < 150"
    using assms(4) jitter_bound by blast
qed

lemma upt_2: "[0..<2] = [0, 1]" and upt_3: "[0..<3] = [0, 1, 2]"
  by (simp_all add: upt_rec)

lemma jitter_half: "jitterOf (1 / 2) = 75"
  by (simp add: jitterOf_def)

theorem transient_failures_are_retried_witness:
  "fetchWithRetry busy (GetPatients 1 20) defaultOpts start =
     (Inr (JObj []),
      \<lparr>calls = 3, draws = 2,
       trace = [Fetched (GetPatients 1 20), Slept 325, Fetched (GetPatients 1 20), Slept 575,
                Fetched (GetPatients 1 20)]\<rparr>)
   \<and> fetchWithRetry down (SubmitAssessment [] [] []) \<lparr>retries = Some 3, baseDelayMs = Some 400\<rparr> start =
     (Inl (HttpAfterRetries 503 (utf16 ''down'')),
      \<lparr>calls = 4, draws = 3,
       trace = [Fetched (SubmitAssessment [] [] []), Slept 475,
                Fetched (SubmitAssessment [] [] []), Slept 875,
                Fetched (SubmitAssessment [] [] []), Slept 1675,
                Fetched (SubmitAssessment [] [] [])]\<rparr>)"
proof -
  have rb: "\<forall>i. 0 \<le> mathRandom busy i \<and> mathRandom busy i < 1"
    and rd: "\<forall>i. 0 \<le> mathRandom down i \<and> mathRandom down i < 1"
    by (simp_all add: busy_def down_def scripted_def)
  have tb: "\<forall>i<2. transient (server busy (calls start + i) (GetPatients 1 20))"
    by (simp add: busy_def scripted_def start_def answer_def less_Suc_eq numeral_2_eq_2)
  have sb: "server busy (calls start + 2) (GetPatients 1 20)
      = Responded \<lparr>status = 200, bodyText = None, bodyJson = Some (JObj [])\<rparr>"
    by (simp add: busy_def scripted_def start_def answerJson_def)
  have td: "\<forall>i\<le>nat 3. transient (server down (calls start + i) (SubmitAssessment [] [] []))"
    by (simp add: down_def scripted_def start_def answer_def le_Suc_eq numeral_3_eq_3)
  have ld: "lastError (server down (calls start + nat 3) (SubmitAssessment [] [] []))
      = HttpAfterRetries 503 (utf16 ''down'')"
    by (simp add: down_def scripted_def start_def answer_def textOrEmpty_def)
  have a: "fetchWithRetry busy (GetPatients 1 20) defaultOpts start =
     (Inr (JObj []),
      \<lparr>calls = calls start + 2 + 1, draws = draws start + 2,
       trace = trace start @ retryEvents busy (GetPatients 1 20) 250 0 (draws start) 2
               @ [Fetched (GetPatients 1 20)]\<rparr>)"
    using transient_failures_are_retried [of 6 defaultOpts 250 busy 2 start "GetPatients 1 20"
        "\<lparr>status = 200, bodyText = None, bodyJson = Some (JObj [])\<rparr>" "JObj []", OF _ _ _ rb]
      tb sb
    by (simp add: defaultOpts_def ok_def)
  have b: "fetchWithRetry down (SubmitAssessment [] [] []) \<lparr>retries = Some 3, baseDelayMs = Some 400\<rparr> start =
     (Inl (lastError (server down (calls start + nat 3) (SubmitAssessment [] [] []))),
      \<lparr>calls = calls start + nat 3 + 1, draws = draws start + nat 3,
       trace = trace start @ retryEvents down (SubmitAssessment [] [] []) 400 0 (draws start) (nat 3)
               @ [Fetched (SubmitAssessment [] [] [])]\<rparr>)"
    using transient_failures_are_retried [of 3 "\<lparr>retries = Some 3, baseDelayMs = Some 400\<rparr>" 400 down
        0 start "SubmitAssessment [] [] []" undefined undefined, OF _ _ _ rd] td
    by simp
  have eb: "retryEvents busy (GetPatients 1 20) 250 0 (draws start) 2
      = [Fetched (GetPatients 1 20), Slept 325, Fetched (GetPatients 1 20), Slept 575]"
    by (simp add: retryEvents_def upt_2 busy_def scripted_def jitter_half start_def)
  have ed: "retryEvents down (SubmitAssessment [] [] []) 400 0 (draws start) (nat 3)
      = [Fetched (SubmitAssessment [] [] []), Slept 475,
         Fetched (SubmitAssessment [] [] []), Slept 875,
         Fetched (SubmitAssessment [] [] []), Slept 1675]"
    by (simp add: retryEvents_def upt_3 down_def scripted_def jitter_half start_def)
  from a [unfolded eb] b [unfolded ed ld] show ?thesis
    by (simp add: start_def)
qed

text \<open>A status that is neither a success nor retryable, met before the last attempt, is
  followed by a wait and another attempt: the \<open>throw\<close> is caught by the \<open>catch\<close> clause of the
  same iteration.\<close>

lemma retryLoop_fatal_step:
  assumes "server e (calls w) req = Responded res"
    and "status res \<notin> set [429, 500, 503]" and "\<not> ok res" and "int a < r"
  shows "retryLoop e req r base a w =
         retryLoop e req r base (a + 1)
           \<lparr>calls = calls w + 1, draws = draws w + 1,
            trace = trace w @ [Fetched req,
              Slept (base * 2 ^ a + of_int (jitterOf (mathRandom e (draws w))))]\<rparr>"
  using assms
  by (subst retryLoop.simps)
     (simp add: tryBlock_def jsFetch_def backoff_def sleep_def Let_def world_eq)

lemma retryLoop_fatal_last:
  assumes "server e (calls w) req = Responded res"
    and "status res \<notin> set [429, 500, 503]" and "\<not> ok res" and "int a = r"
  shows "retryLoop e req r base a w =
         (Inl (HttpError (status res) (textOrEmpty res)),
          \<lparr>calls = calls w + 1, draws = draws w, trace = trace w @ [Fetched req]\<rparr>)"
  using assms
  by (subst retryLoop.simps) (simp add: tryBlock_def jsFetch_def world_eq)

text \<open>
  C1. A call that is answered 404 and then 200 does not fail: it waits, sends the
  request again and returns the body of the second answer.
\<close>

theorem not_found_is_retried:
  "fetchWithRetry notFoundOnce (GetPatients 1 20) defaultOpts start =
     (Inr (JObj []),
      \<lparr>calls = 2, draws = 1,
       trace = [Fetched (GetPatients 1 20), Slept 325, Fetched (GetPatients 1 20)]\<rparr>)"
proof -
  have "retryLoop notFoundOnce (GetPatients 1 20) 6 250 0 start =
        retryLoop notFoundOnce (GetPatients 1 20) 6 250 (0 + 1)
          \<lparr>calls = calls start + 1, draws = draws start + 1,
           trace = trace start @ [Fetched (GetPatients 1 20),
             Slept (250 * 2 ^ 0 + of_int (jitterOf (mathRandom notFoundOnce (draws start))))]\<rparr>"
    by (rule retryLoop_fatal_step
        [where res = "\<lparr>status = 404, bodyText = Some (utf16 ''Not Found''), bodyJson = None\<rparr>"])
       (simp_all add: notFoundOnce_def scripted_def start_def answer_def ok_def)
  also have "\<dots> = (Inr (JObj []),
      \<lparr>calls = 2, draws = 1,
       trace = [Fetched (GetPatients 1 20), Slept 325, Fetched (GetPatients 1 20)]\<rparr>)"
    by (subst retryLoop_success
        [where res = "\<lparr>status = 200, bodyText = None, bodyJson = Some (JObj [])\<rparr>" and v = "JObj []"])
       (simp_all add: notFoundOnce_def scripted_def start_def answerJson_def ok_def jitter_half)
  finally show ?thesis
    by (simp add: fetchWithRetry_def defaultOpts_def)
qed

section \<open>Properties of the pagination driver\<close>

lemma fetchPages_from:
  assumes tr: "\<forall>p w. fst (fetchWithRetry e (GetPatients p 20)
                         \<lparr>retries = None, baseDelayMs = None\<rparr> w) = Inr (body p)"
    and last: "extractData (body n) = Inr []"
  shows "first \<le> n \<Longrightarrow>
         \<forall>p. first \<le> p \<and> p < n \<longrightarrow> (\<exists>d. extractData (body p) = Inr d \<and> d \<noteq> []) \<Longrightarrow>
         \<exists>w'. fetchPages e first all w =
           Some (Inr (all @ concat (map (\<lambda>p. map asPatient (filter looksLikePatient (pageData (body p))))
                                      [first..<n])), w')"
proof (induction "n - first" arbitrary: first all w)
  case 0
  then have "first = n" by simp
  obtain w1 where f: "fetchWithRetry e (GetPatients n 20) \<lparr>retries = None, baseDelayMs = None\<rparr> w
      = (Inr (body n), w1)"
    using tr by (metis prod.collapse)
  show ?case
    unfolding \<open>first = n\<close>
    by (subst fetchPages.simps) (simp add: f last)
next
  case (Suc k)
  then have lt: "first < n" and k: "k = n - (first + 1)" and le: "first + 1 \<le> n"
    by simp_all
  obtain w1 where f: "fetchWithRetry e (GetPatients first 20) \<lparr>retries = None, baseDelayMs = None\<rparr> w
      = (Inr (body first), w1)"
    using tr by (metis prod.collapse)
  from Suc.prems(2) lt obtain d where d: "extractData (body first) = Inr d" "d \<noteq> []"
    by blast
  have rest: "\<forall>p. first + 1 \<le> p \<and> p < n \<longrightarrow> (\<exists>d. extractData (body p) = Inr d \<and> d \<noteq> [])"
    using Suc.prems(2) by simp
  from Suc.hyps(1) [OF k le rest, of "pushPatients all d" "sleep 120 w1"]
  obtain w' where r: "fetchPages e (first + 1) (pushPatients all d) (sleep 120 w1) =
      Some (Inr (pushPatients all d @
        concat (map (\<lambda>p. map asPatient (filter looksLikePatient (pageData (body p))))
                  [first + 1..<n])), w')"
    by blast
  have "fetchPages e first all w = fetchPages e (first + 1) (pushPatients all d) (sleep 120 w1)"
    by (subst fetchPages.simps) (simp add: f d)
  with r lt d show ?case
    by (simp add: upt_conv_Cons pushPatients_eq pageData_def)
qed

text \<open>
  C2, amended. Whatever bodies the transport returns for the pages, if the collections
  extracted from pages \<open>1\<close> to \<open>n - 1\<close> are not empty and the one extracted from page \<open>n\<close>
  is empty (no \<open>data\<close>, or \<open>data\<close> that is not an array, counts as empty), the driver
  stops at page \<open>n\<close> and returns, in order, exactly the entries of pages \<open>1\<close> to \<open>n - 1\<close>
  that are objects with a \<open>patient_id\<close> key. The collection of a page is read from its
  \<open>data\<close> property alone.
\<close>

theorem pagination_stops_at_first_empty_data:
  assumes "\<forall>p w. fst (fetchWithRetry e (GetPatients p 20)
                     \<lparr>retries = None, baseDelayMs = None\<rparr> w) = Inr (body p)"
    and "\<forall>p. 1 \<le> p \<and> p < n \<longrightarrow> (\<exists>d. extractData (body p) = Inr d \<and> d \<noteq> [])"
    and "extractData (body n) = Inr []"
    and "1 \<le> n"
  shows "(\<exists>w'. fetchAllPatients e w =
           Some (Inr (concat (map (\<lambda>p. map asPatient (filter looksLikePatient (pageData (body p))))
                                [1..<n])), w'))
         \<and> pageData (JObj props) = (case field props ''data'' of JArr xs \<Rightarrow> xs | _ \<Rightarrow> [])"
proof
  show "\<exists>w'. fetchAllPatients e w =
           Some (Inr (concat (map (\<lambda>p. map asPatient (filter looksLikePatient (pageData (body p))))
                                [1..<n])), w')"
    using fetchPages_from [OF assms(1,3,4,2), of "[]" w]
    by (simp add: fetchAllPatients_def)
  show "pageData (JObj props) = (case field props ''data'' of JArr xs \<Rightarrow> xs | _ \<Rightarrow> [])"
    by (simp add: pageData_def extractData_def split: jsval.splits)
qed

lemma paged_fetch:
  "fetchWithRetry (paged pages) (GetPatients p 20) \<lparr>retries = None, baseDelayMs = None\<rparr> w =
     (Inr (pages p),
      \<lparr>calls = calls w + 1, draws = draws w, trace = trace w @ [Fetched (GetPatients p 20)]\<rparr>)"
  unfolding fetchWithRetry_def
  by (simp add: retryLoop_success
      [where res = "\<lparr>status = 200, bodyText = None, bodyJson = Some (pages p)\<rparr>"]
      paged_def answerJson_def ok_def)

text \<open>
  C2, as stated, at a first page whose only entry is the number 42, a second page with
  one record and an empty third page: the first page yields no record-like entry, and
  the driver goes on to fetch pages 2 and 3 and returns the record of page 2.
\<close>

theorem junk_page_does_not_stop_pagination:
  "filter looksLikePatient (pageData (junkFirst 1)) = []
   \<and> fetchAllPatients (paged junkFirst) start =
       Some (Inr [febrile],
             \<lparr>calls = 3, draws = 0,
              trace = [Fetched (GetPatients 1 20), Slept 120, Fetched (GetPatients 2 20), Slept 120,
                       Fetched (GetPatients 3 20)]\<rparr>)"
proof -
  have d: "extractData (junkFirst p) =
      Inr (if p = 1 then [JNum (Fin 42)] else if p = 2 then [JObj febrile] else [])" for p
    by (simp add: junkFirst_def pageBody_def extractData_def field_def utf16_def)
  have l: "looksLikePatient (JObj febrile)" "\<not> looksLikePatient (JNum (Fin 42))"
    by (simp_all add: looksLikePatient_def febrile_def utf16_def)
  have "fetchPages (paged junkFirst) 1 [] start =
       Some (Inr [febrile],
             \<lparr>calls = 3, draws = 0,
              trace = [Fetched (GetPatients 1 20), Slept 120, Fetched (GetPatients 2 20), Slept 120,
                       Fetched (GetPatients 3 20)]\<rparr>)"
    apply (subst fetchPages.simps, simp add: paged_fetch d l sleep_def start_def)
    apply (subst fetchPages.simps, simp add: paged_fetch d l sleep_def)
    apply (subst fetchPages.simps, simp add: paged_fetch d l sleep_def)
    done
  then show ?thesis
    by (simp add: fetchAllPatients_def pageData_def d l)
qed

lemma upt_1_3: "[1..<3] = [1, 2]"
  by (simp add: upt_rec)

theorem pagination_stops_at_first_empty_data_witness:
  "extractData (twoPages 1) = Inr [JObj febrile, JNull]
   \<and> extractData (twoPages 2) = Inr [JObj inTheGap]
   \<and> extractData (twoPages 3) = Inr []
   \<and> twoPages 3 = JObj [(utf16 ''data'', JArr []),
                          (utf16 ''pagination'', JObj [(utf16 ''hasNext'', JBool True)])]
   \<and> map_option fst (fetchAllPatients (paged twoPages) start) = Some (Inr [febrile, inTheGap])"
proof -
  have d: "extractData (twoPages p) =
      Inr (if p = 1 then [JObj febrile, JNull] else if p = 2 then [JObj inTheGap] else [])" for p
    by (simp add: twoPages_def pageBody_def extractData_def field_def utf16_def)
  have l: "looksLikePatient (JObj febrile)" "looksLikePatient (JObj inTheGap)"
    "\<not> looksLikePatient JNull"
    by (simp_all add: looksLikePatient_def febrile_def inTheGap_def utf16_def)
  have h1: "\<forall>p w. fst (fetchWithRetry (paged twoPages) (GetPatients p 20)
                     \<lparr>retries = None, baseDelayMs = None\<rparr> w) = Inr (twoPages p)"
    by (simp add: paged_fetch)
  have h2: "\<forall>p. 1 \<le> p \<and> p < 3 \<longrightarrow> (\<exists>d. extractData (twoPages p) = Inr d \<and> d \<noteq> [])"
    by (auto simp: d)
  have h3: "extractData (twoPages 3) = Inr []"
    by (simp add: d)
  have c: "concat (map (\<lambda>p. map asPatient (filter looksLikePatient (pageData (twoPages p)))) [1..<3])
      = [febrile, inTheGap]"
    by (subst upt_1_3) (simp add: pageData_def d l)
  from pagination_stops_at_first_empty_data [OF h1 h2 h3, of start "[]"]
  obtain w' where "fetchAllPatients (paged twoPages) start =
      Some (Inr (concat (map (\<lambda>p. map asPatient (filter looksLikePatient (pageData (twoPages p))))
                           [1..<3])), w')"
    by auto
  then have "map_option fst (fetchAllPatients (paged twoPages) start) = Some (Inr [febrile, inTheGap])"
    unfolding c by simp
  then show ?thesis
    by (simp add: d) (simp add: twoPages_def pageBody_def)
qed

section \<open>A whole run\<close>

text \<open>Two pages of records and an empty third page, fetched, classified and submitted.\<close>

lemma main_end_to_end:
  "main noConversion (paged twoPages) start =
     Some (Inr JNull,
       \<lparr>calls = 4, draws = 0,
        trace = [Fetched (GetPatients 1 20), Slept 120, Fetched (GetPatients 2 20), Slept 120,
                 Fetched (GetPatients 3 20),
                 Fetched (SubmitAssessment
                   [JStr (utf16 ''DEMO003'')]
                   [JStr (utf16 ''DEMO001''), JStr (utf16 ''DEMO003'')]
                   [JStr (utf16 ''DEMO001''), JStr (utf16 ''DEMO003'')])]\<rparr>)"
proof -
  have d: "extractData (twoPages p) =
      Inr (if p = 1 then [JObj febrile, JNull] else if p = 2 then [JObj inTheGap] else [])" for p
    by (simp add: twoPages_def pageBody_def extractData_def field_def utf16_def)
  have l: "looksLikePatient (JObj febrile)" "looksLikePatient (JObj inTheGap)"
    "\<not> looksLikePatient JNull"
    by (simp_all add: looksLikePatient_def febrile_def inTheGap_def utf16_def)
  have f: "fetchAllPatients (paged twoPages) start =
       Some (Inr [febrile, inTheGap],
             \<lparr>calls = 3, draws = 0,
              trace = [Fetched (GetPatients 1 20), Slept 120, Fetched (GetPatients 2 20), Slept 120,
                       Fetched (GetPatients 3 20)]\<rparr>)"
    unfolding fetchAllPatients_def
    apply (subst fetchPages.simps, simp add: paged_fetch d l sleep_def start_def)
    apply (subst fetchPages.simps, simp add: paged_fetch d l sleep_def)
    apply (subst fetchPages.simps, simp add: paged_fetch d l sleep_def)
    done
  have g: "field inTheGap ''patient_id'' = JStr (utf16 ''DEMO001'')"
    "hasDataQualityIssue inTheGap" "isFeverPatient inTheGap" "totalRiskScore inTheGap = 0"
    by (simp_all add: inTheGap_def score_defs parse_defs)
  have c: "classifyAll [febrile, inTheGap] =
      \<lparr>highRisk = [JStr (utf16 ''DEMO003'')],
       fever = [JStr (utf16 ''DEMO003''), JStr (utf16 ''DEMO001'')],
       dataIssues = [JStr (utf16 ''DEMO003''), JStr (utf16 ''DEMO001'')]\<rparr>"
    by (simp add: classifyAll_def classify_def Let_def noAlerts_def setAdd_def sameValueZero_def
        isPrimitive_def febrile_facts g utf16_def)
  have b: "buildSubmission noConversion (classifyAll [febrile, inTheGap]) =
     Inr \<lparr>high_risk_patients = [JStr (utf16 ''DEMO003'')],
          fever_patients = [JStr (utf16 ''DEMO001''), JStr (utf16 ''DEMO003'')],
          data_quality_issues = [JStr (utf16 ''DEMO001''), JStr (utf16 ''DEMO003'')]\<rparr>"
    by (simp add: c buildSubmission_def jsSort_def jsToString_def sortKey_def utf16_def)
  have s: "fetchWithRetry (paged pages) (SubmitAssessment hr fv dq)
       \<lparr>retries = Some 3, baseDelayMs = Some 400\<rparr> w =
     (Inr JNull,
      \<lparr>calls = calls w + 1, draws = draws w,
       trace = trace w @ [Fetched (SubmitAssessment hr fv dq)]\<rparr>)" for pages hr fv dq w
    unfolding fetchWithRetry_def
    by (simp add: retryLoop_success
        [where res = "\<lparr>status = 200, bodyText = None, bodyJson = Some JNull\<rparr>"]
        paged_def answerJson_def ok_def)
  show ?thesis
    by (simp add: main_def f b submitAssessment_def s)
qed

end
